theory Spec2Isabelle
  imports Complex_Main "HOL-Library.Multiset" "HOL-Library.Log_Nat"
begin

section \<open>Values of the request and of the store\<close>

text \<open>
  The handlers of \<^verbatim>\<open>src/controller/quizController.js\<close> read untyped JSON from
  \<^verbatim>\<open>req.body\<close>.  A JSON value is modelled as it arrives: \<open>JUndefined\<close> stands for an
  absent field.  An object is an association list in which a key occurs once; a key is
  looked up with \<open>map_of\<close>.
\<close>

type_synonym oid = string

datatype json =
    JUndefined
  | JNull
  | JBool bool
  | JNum rat
  | JStr string
  | JArr "json list"
  | JObj "(string \<times> json) list"

text \<open>What a handler can throw: a \<open>TypeError\<close> of the language (a property read on
  \<^verbatim>\<open>null\<close> or \<^verbatim>\<open>undefined\<close>), or the rejection of a store call.\<close>

datatype js_error = TypeError | StoreError

text \<open>JavaScript truthiness, as used by \<^verbatim>\<open>!title\<close>, \<^verbatim>\<open>!question.options\<close>,
  \<^verbatim>\<open>description || ""\<close> and \<^verbatim>\<open>.filter(Boolean)\<close>.\<close>

fun truthy :: "json \<Rightarrow> bool" where
  "truthy JUndefined = False"
| "truthy JNull = False"
| "truthy (JBool b) = b"
| "truthy (JNum r) = (r \<noteq> 0)"
| "truthy (JStr s) = (s \<noteq> [])"
| "truthy (JArr xs) = True"
| "truthy (JObj kvs) = True"

text \<open>\<^verbatim>\<open>v.name\<close> for the field names the handlers read (\<^verbatim>\<open>question\<close>,
  \<^verbatim>\<open>options\<close>, \<^verbatim>\<open>correctAnswer\<close>, \<^verbatim>\<open>selectedOption\<close>): a \<open>TypeError\<close> on
  \<^verbatim>\<open>null\<close> and \<^verbatim>\<open>undefined\<close>, the field of an object, \<^verbatim>\<open>undefined\<close> on every
  other value.\<close>

fun get_prop :: "json \<Rightarrow> string \<Rightarrow> js_error + json" where
  "get_prop JUndefined k = Inl TypeError"
| "get_prop JNull k = Inl TypeError"
| "get_prop (JObj kvs) k = Inr (case map_of kvs k of None \<Rightarrow> JUndefined | Some v \<Rightarrow> v)"
| "get_prop v k = Inr JUndefined"

text \<open>The decimal name of an index, the key under which \<^verbatim>\<open>obj[index]\<close> looks.\<close>

function decimal :: "nat \<Rightarrow> string" where
  "decimal n =
     (if n < 10 then [char_of (48 + n)]
      else decimal (n div 10) @ [char_of (48 + n mod 10)])"
  by pat_completeness auto
termination
  by (relation "measure id") auto

declare decimal.simps [simp del]

text \<open>\<^verbatim>\<open>answers[index]\<close>: a \<open>TypeError\<close> on \<^verbatim>\<open>null\<close> and \<^verbatim>\<open>undefined\<close>, the
  element of an array or \<^verbatim>\<open>undefined\<close> past its end, a one-character string of a
  string, the field named by the index of an object.\<close>

fun get_index :: "json \<Rightarrow> nat \<Rightarrow> js_error + json" where
  "get_index JUndefined i = Inl TypeError"
| "get_index JNull i = Inl TypeError"
| "get_index (JArr xs) i = Inr (if i < length xs then xs ! i else JUndefined)"
| "get_index (JStr s) i = Inr (if i < length s then JStr [s ! i] else JUndefined)"
| "get_index (JObj kvs) i = get_prop (JObj kvs) (decimal i)"
| "get_index v i = Inr JUndefined"

text \<open>The numbers the scoring computes are IEEE 754 doubles.  A finite double is
  modelled by the rational it denotes; \<open>to_double\<close> rounds a rational to the nearest
  double, ties to the even significand, with 53 bits of significand, the subnormal
  spacing below \<open>2 powi (- 1022)\<close> and an infinity from \<open>2 powi 1024\<close> on.  The operands
  of the division are a count and the length of an array, which are below \<open>2 ^ 32\<close>
  and are doubles as they stand.\<close>

datatype jsnum = NaN | PosInf | NegInf | Fin rat

text \<open>The exponent of a positive rational: \<open>2 powi ilog2 r \<le> r < 2 powi (ilog2 r + 1)\<close>.\<close>

definition ilog2 :: "rat \<Rightarrow> int" where
  "ilog2 r = (if 1 \<le> r then bitlen \<lfloor>r\<rfloor> - 1 else - bitlen (\<lceil>1 / r\<rceil> - 1))"

definition round_half_even :: "rat \<Rightarrow> int" where
  "round_half_even m =
     (let f = \<lfloor>m\<rfloor>; d = m - of_int f
      in if d < 1 / 2 then f
         else if 1 / 2 < d then f + 1
         else if even f then f else f + 1)"

definition to_double :: "rat \<Rightarrow> jsnum" where
  "to_double r =
     (if r = 0 then Fin 0
      else
        (let a = \<bar>r\<bar>;
             e = max (ilog2 a) (- 1022);
             ulp = 2 powi (e - 52);
             v = of_int (round_half_even (a / ulp)) * ulp
         in if 2 powi 1024 \<le> v then (if 0 < r then PosInf else NegInf)
            else Fin (sgn r * v)))"

text \<open>\<^verbatim>\<open>score / quiz.questions.length\<close>, and the product of the quotient and 100 (line
  189).  \<^verbatim>\<open>0 / 0\<close> is \<^verbatim>\<open>NaN\<close>, and the code does not guard it.\<close>

definition js_div :: "nat \<Rightarrow> nat \<Rightarrow> jsnum" where
  "js_div a b =
     (if b = 0 then (if a = 0 then NaN else PosInf)
      else to_double (of_nat a / of_nat b))"

fun js_times100 :: "jsnum \<Rightarrow> jsnum" where
  "js_times100 NaN = NaN"
| "js_times100 PosInf = PosInf"
| "js_times100 NegInf = NegInf"
| "js_times100 (Fin r) = to_double (r * 100)"

subsection \<open>Documents\<close>

text \<open>\<^verbatim>\<open>src/models/quizSchema.js\<close>: a quiz and its embedded questions.  \<open>createdAt\<close>
  is the timestamp that \<^verbatim>\<open>timestamps: true\<close> adds.\<close>

record question_doc =
  q_id :: oid
  question :: string
  options :: "string list"
  correctAnswer :: string

record quiz_doc =
  quiz_id :: oid
  title :: string
  description :: string
  questions :: "question_doc list"
  duration :: rat
  createdBy :: oid
  createdAt :: nat

text \<open>Modelled from the spec: the schemas of the completed attempts and of the scores
  are not among the sources.  Their documents carry the fields that \<^verbatim>\<open>submitQuiz\<close>
  passes to \<^verbatim>\<open>CompletedQuiz.create\<close> and \<^verbatim>\<open>Score.create\<close>; a completed attempt has
  also the completion timestamp \<open>completedAt\<close> by which \<^verbatim>\<open>getCompletedQuizzes\<close> sorts,
  set when the attempt is created.\<close>

record answered =
  a_question :: string
  a_options :: "string list"
  a_correctAnswer :: string
  selectedOption :: json

record completed_quiz =
  student :: oid
  quiz :: oid
  cq_score :: nat
  cq_totalQuestions :: nat
  cq_percentage :: jsnum
  cq_questions :: "answered list"
  completedAt :: nat

record score_doc =
  quizId :: oid
  studentId :: oid
  score :: nat
  totalQuestions :: nat
  percentage :: jsnum

record user_doc =
  user_id :: oid
  role :: string
  fullName :: string
  avatar :: string

record store =
  quizzes :: "quiz_doc list"
  completedQuizzes :: "completed_quiz list"
  scoreDocs :: "score_doc list"
  users :: "user_doc list"

text \<open>The fields of a quiz that come from the request body, after the schema has
  cast them.\<close>

record quiz_fields =
  f_title :: string
  f_description :: string
  f_questions :: "question_doc list"
  f_duration :: rat

text \<open>What the handlers take from outside: the clock, the identifier of a new quiz,
  the schema's cast of a request body to the fields of a quiz, and whether the store
  accepts a new attempt and a new score.\<close>

record env =
  now :: nat
  new_id :: oid
  quiz_cast :: "json \<Rightarrow> json \<Rightarrow> json \<Rightarrow> json \<Rightarrow> quiz_fields option"
  cq_accepts :: "completed_quiz \<Rightarrow> bool"
  score_accepts :: "score_doc \<Rightarrow> bool"

subsection \<open>Results of a handler\<close>

record leaderboard_entry =
  le_score :: score_doc
  le_student :: "(string \<times> string) option"

record score_summary =
  ss_score :: nat
  ss_totalQuestions :: nat
  ss_completedAt :: nat

datatype payload =
    NoPayload
  | PQuiz quiz_doc
  | PQuizzes "quiz_doc list"
  | PResult completed_quiz
  | PLeaderboard "leaderboard_entry list"
  | PCompleted "(score_summary \<times> quiz_doc) list"

text \<open>A handler ends in one of three ways: \<^verbatim>\<open>res.status(n).json({success, message, ...})\<close>,
  \<^verbatim>\<open>next(new ErrorHandler(message, n))\<close>, or an exception that leaves the handler
  for the wrapper \<^verbatim>\<open>catchAsyncErrors\<close>.\<close>

datatype outcome =
    Json nat bool "string option" payload
  | Next string nat
  | Threw js_error

section \<open>submitQuiz\<close>

text \<open>The \<^verbatim>\<open>forEach\<close> that counts the score (lines 184 to 187), with the index and the
  running score as arguments.\<close>

fun score_loop :: "question_doc list \<Rightarrow> json \<Rightarrow> nat \<Rightarrow> nat \<Rightarrow> js_error + nat" where
  "score_loop [] answers index sc = Inr sc"
| "score_loop (q # qs) answers index sc =
     (case get_index answers index of
        Inl e \<Rightarrow> Inl e
      | Inr a \<Rightarrow>
          (case get_prop a ''selectedOption'' of
             Inl e \<Rightarrow> Inl e
           | Inr sel \<Rightarrow>
               score_loop qs answers (Suc index)
                 (if JStr (correctAnswer q) = sel then Suc sc else sc)))"

text \<open>The \<^verbatim>\<open>map\<close> that builds the snapshot of the questions (lines 198 to 203).\<close>

fun snapshot :: "question_doc list \<Rightarrow> json \<Rightarrow> nat \<Rightarrow> js_error + answered list" where
  "snapshot [] answers index = Inr []"
| "snapshot (q # qs) answers index =
     (case get_index answers index of
        Inl e \<Rightarrow> Inl e
      | Inr a \<Rightarrow>
          (case get_prop a ''selectedOption'' of
             Inl e \<Rightarrow> Inl e
           | Inr sel \<Rightarrow>
               (case snapshot qs answers (Suc index) of
                  Inl e \<Rightarrow> Inl e
                | Inr rest \<Rightarrow>
                    Inr (\<lparr>a_question = question q, a_options = options q,
                          a_correctAnswer = correctAnswer q, selectedOption = sel\<rparr> # rest))))"

definition submitQuiz :: "env \<Rightarrow> store \<Rightarrow> user_doc \<Rightarrow> oid \<Rightarrow> json \<Rightarrow> outcome \<times> store" where
  "submitQuiz e st user qzId answers =
     (let userId = user_id user in
      case find (\<lambda>c. quiz c = qzId \<and> student c = userId) (completedQuizzes st) of
        Some previousAttempt \<Rightarrow>
          (Json 400 False (Some ''You have already taken this quiz.'') (PResult previousAttempt), st)
      | None \<Rightarrow>
          (case find (\<lambda>q. quiz_id q = qzId) (quizzes st) of
             None \<Rightarrow> (Next ''Quiz not found'' 404, st)
           | Some qz \<Rightarrow>
               (case score_loop (questions qz) answers 0 0 of
                  Inl err \<Rightarrow> (Threw err, st)
                | Inr sc \<Rightarrow>
                    (let pct = js_times100 (js_div sc (length (questions qz))) in
                     case snapshot (questions qz) answers 0 of
                       Inl err \<Rightarrow> (Threw err, st)
                     | Inr snap \<Rightarrow>
                         (let completedQuiz =
                                \<lparr>student = userId, quiz = qzId, cq_score = sc,
                                 cq_totalQuestions = length (questions qz),
                                 cq_percentage = pct, cq_questions = snap,
                                 completedAt = now e\<rparr>
                          in if \<not> cq_accepts e completedQuiz then (Threw StoreError, st)
                             else
                               (let st1 = st\<lparr>completedQuizzes := completedQuizzes st @ [completedQuiz]\<rparr>;
                                    newScore =
                                      \<lparr>quizId = qzId, studentId = userId, score = sc,
                                       totalQuestions = length (questions qz),
                                       percentage = pct\<rparr>
                                in if \<not> score_accepts e newScore
                                   then (Next ''Failed to save score'' 500, st1)
                                   else (Json 200 True (Some ''Quiz submitted'') (PResult completedQuiz),
                                         st1\<lparr>scoreDocs := scoreDocs st1 @ [newScore]\<rparr>)))))))"

section \<open>Lookups of the store\<close>

text \<open>\<^verbatim>\<open>Quiz.findById(id)\<close>, also what \<^verbatim>\<open>populate("quiz")\<close> does for one reference:
  the quiz with that identifier, or \<^verbatim>\<open>null\<close>.\<close>

definition findById :: "store \<Rightarrow> oid \<Rightarrow> quiz_doc option" where
  "findById st i = find (\<lambda>q. quiz_id q = i) (quizzes st)"

text \<open>\<^verbatim>\<open>Quiz.findOne().sort({ createdAt: -1 })\<close>: the first quiz in descending order of
  creation time, \<^verbatim>\<open>null\<close> in an empty collection.\<close>

definition latest_quiz :: "store \<Rightarrow> quiz_doc option" where
  "latest_quiz st =
     (case sort_key (\<lambda>q. - int (createdAt q)) (quizzes st) of
        [] \<Rightarrow> None
      | q # _ \<Rightarrow> Some q)"

text \<open>A write to one document: the first one that matches is replaced.\<close>

fun replace_first :: "('a \<Rightarrow> bool) \<Rightarrow> 'a \<Rightarrow> 'a list \<Rightarrow> 'a list" where
  "replace_first P y [] = []"
| "replace_first P y (x # xs) = (if P x then y # xs else x # replace_first P y xs)"

fun remove_first :: "('a \<Rightarrow> bool) \<Rightarrow> 'a list \<Rightarrow> 'a list" where
  "remove_first P [] = []"
| "remove_first P (x # xs) = (if P x then xs else x # remove_first P xs)"

section \<open>addQuiz and updateQuiz\<close>

record quiz_body =
  b_title :: json
  b_description :: json
  b_questions :: json
  b_duration :: json

fun is_array :: "json \<Rightarrow> bool" where
  "is_array (JArr xs) = True"
| "is_array v = False"

fun elements :: "json \<Rightarrow> json list" where
  "elements (JArr xs) = xs"
| "elements v = []"

text \<open>One round of the loop over the questions (lines 27 to 32 and 67 to 72): \<open>None\<close>
  when the question passes.  The three reads are of the same value, so the first one
  throws or none does.\<close>

definition validate_question :: "json \<Rightarrow> outcome option" where
  "validate_question q =
     (case get_prop q ''question'' of
        Inl err \<Rightarrow> Some (Threw err)
      | Inr qt \<Rightarrow>
          (case get_prop q ''options'' of
             Inl err \<Rightarrow> Some (Threw err)
           | Inr opts \<Rightarrow>
               (case get_prop q ''correctAnswer'' of
                  Inl err \<Rightarrow> Some (Threw err)
                | Inr ca \<Rightarrow>
                    if \<not> truthy qt \<or> \<not> truthy opts \<or> \<not> truthy ca
                    then Some (Next ''Each question must have a question, options, and correctAnswer!'' 400)
                    else if \<not> is_array opts \<or> length (elements opts) = 0
                    then Some (Next ''Options must be a non-empty array!'' 400)
                    else None)))"

fun validate_questions :: "json list \<Rightarrow> outcome option" where
  "validate_questions [] = None"
| "validate_questions (q # qs) =
     (case validate_question q of
        Some out \<Rightarrow> Some out
      | None \<Rightarrow> validate_questions qs)"

text \<open>The checks that open both handlers (lines 16 to 33 of \<^verbatim>\<open>addQuiz\<close>, the same text
  at lines 56 to 73 of \<^verbatim>\<open>updateQuiz\<close>): \<open>None\<close> when the body passes.\<close>

definition validate_body :: "quiz_body \<Rightarrow> outcome option" where
  "validate_body b =
     (if \<not> truthy (b_title b) \<or> \<not> truthy (b_questions b) \<or> \<not> truthy (b_duration b)
      then Some (Next ''Title, questions, and duration are required!'' 400)
      else if \<not> is_array (b_questions b) \<or> length (elements (b_questions b)) = 0
      then Some (Next ''Questions must be a non-empty array!'' 400)
      else validate_questions (elements (b_questions b)))"

definition addQuiz :: "env \<Rightarrow> store \<Rightarrow> user_doc \<Rightarrow> quiz_body \<Rightarrow> outcome \<times> store" where
  "addQuiz e st user b =
     (case validate_body b of
        Some out \<Rightarrow> (out, st)
      | None \<Rightarrow>
          (case quiz_cast e (b_title b)
                  (if truthy (b_description b) then b_description b else JStr [])
                  (b_questions b) (b_duration b) of
             None \<Rightarrow> (Threw StoreError, st)
           | Some f \<Rightarrow>
               (let newQuiz =
                      \<lparr>quiz_id = new_id e, title = f_title f, description = f_description f,
                       questions = f_questions f, duration = f_duration f,
                       createdBy = user_id user, createdAt = now e\<rparr>
                in (Json 201 True (Some ''Quiz added successfully!'') (PQuiz newQuiz),
                    st\<lparr>quizzes := quizzes st @ [newQuiz]\<rparr>))))"

definition updateQuiz :: "env \<Rightarrow> store \<Rightarrow> oid \<Rightarrow> quiz_body \<Rightarrow> outcome \<times> store" where
  "updateQuiz e st i b =
     (case validate_body b of
        Some out \<Rightarrow> (out, st)
      | None \<Rightarrow>
          (case quiz_cast e (b_title b) (b_description b) (b_questions b) (b_duration b) of
             None \<Rightarrow> (Threw StoreError, st)
           | Some f \<Rightarrow>
               (case findById st i of
                  None \<Rightarrow> (Next ''Quiz not found!'' 404, st)
                | Some old \<Rightarrow>
                    (let updatedQuiz =
                           old\<lparr>title := f_title f, description := f_description f,
                               questions := f_questions f, duration := f_duration f\<rparr>
                     in (Json 200 True (Some ''Quiz updated successfully!'') (PQuiz updatedQuiz),
                         st\<lparr>quizzes := replace_first (\<lambda>q. quiz_id q = i) updatedQuiz (quizzes st)\<rparr>)))))"

section \<open>deleteQuiz and deleteQuestion\<close>

definition deleteQuiz :: "store \<Rightarrow> oid \<Rightarrow> outcome \<times> store" where
  "deleteQuiz st i =
     (case findById st i of
        None \<Rightarrow> (Next ''Quiz not found!'' 404, st)
      | Some qz \<Rightarrow>
          (Json 200 True (Some ''Quiz deleted successfully!'') NoPayload,
           st\<lparr>quizzes := remove_first (\<lambda>q. quiz_id q = i) (quizzes st)\<rparr>))"

definition deleteQuestion :: "store \<Rightarrow> oid \<Rightarrow> oid \<Rightarrow> outcome \<times> store" where
  "deleteQuestion st qzId questionId =
     (case findById st qzId of
        None \<Rightarrow> (Next ''Quiz not found!'' 404, st)
      | Some qz \<Rightarrow>
          (let saved = qz\<lparr>questions := filter (\<lambda>q. q_id q \<noteq> questionId) (questions qz)\<rparr>
           in (Json 200 True (Some ''Question deleted successfully!'') NoPayload,
               st\<lparr>quizzes := replace_first (\<lambda>q. quiz_id q = qzId) saved (quizzes st)\<rparr>)))"

section \<open>getAllQuizzes\<close>

text \<open>\<^verbatim>\<open>.filter(Boolean)\<close> on a list of documents and \<^verbatim>\<open>null\<close>s.\<close>

fun filter_Boolean :: "'a option list \<Rightarrow> 'a list" where
  "filter_Boolean [] = []"
| "filter_Boolean (None # xs) = filter_Boolean xs"
| "filter_Boolean (Some x # xs) = x # filter_Boolean xs"

definition getAllQuizzes :: "store \<Rightarrow> user_doc \<Rightarrow> outcome" where
  "getAllQuizzes st user =
     (if role user = ''admin''
      then Json 200 True None (PQuizzes (quizzes st))
      else
        (let latestQuiz = latest_quiz st;
             completed = filter (\<lambda>c. student c = user_id user) (completedQuizzes st);
             completedQuizIds = map (\<lambda>cq. findById st (quiz cq)) completed
         in Json 200 True None (PQuizzes (filter_Boolean (latestQuiz # completedQuizIds)))))"

section \<open>getQuizLeaderboard\<close>

definition getQuizLeaderboard :: "store \<Rightarrow> oid \<Rightarrow> outcome" where
  "getQuizLeaderboard st qzId =
     (if qzId = [] then Json 400 False (Some ''Quiz ID is required'') NoPayload
      else
        (let found = sort_key (\<lambda>s. - int (score s)) (filter (\<lambda>s. quizId s = qzId) (scoreDocs st));
             leaderboard =
               map (\<lambda>s. \<lparr>le_score = s,
                         le_student = map_option (\<lambda>u. (fullName u, avatar u))
                                        (find (\<lambda>u. user_id u = studentId s) (users st))\<rparr>) found
         in Json 200 True None (PLeaderboard leaderboard)))"

section \<open>getCompletedQuizzes\<close>

definition getCompletedQuizzes :: "store \<Rightarrow> oid \<Rightarrow> outcome" where
  "getCompletedQuizzes st stId =
     (let completed =
            sort_key (\<lambda>(c, q). - int (completedAt c))
              (map (\<lambda>c. (c, findById st (quiz c)))
                 (filter (\<lambda>c. student c = stId) (completedQuizzes st)))
      in if length completed = 0 then Next ''No completed quizzes found'' 404
         else
           (let formattedQuizzes =
                  map (\<lambda>(c, q). (\<lparr>ss_score = cq_score c, ss_totalQuestions = cq_totalQuestions c,
                                    ss_completedAt = completedAt c\<rparr>, the q))
                    (filter (\<lambda>(c, q). q \<noteq> None) completed)
            in Json 200 True None (PCompleted formattedQuizzes)))"

section \<open>The specification's conditions\<close>

text \<open>The conditions of the specification for a rejected quiz body, in its words.
  A field is missing when it is absent or falsy (\<^verbatim>\<open>null\<close>, \<^verbatim>\<open>false\<close>, \<open>0\<close>, the empty
  string), the reading under which the code's \<^verbatim>\<open>!title\<close> is the test for it.  The field
  of a value that has no fields is absent.\<close>

definition missing :: "json \<Rightarrow> bool" where
  "missing v = (\<not> truthy v)"

definition field :: "json \<Rightarrow> string \<Rightarrow> json" where
  "field q k = (case get_prop q k of Inl err \<Rightarrow> JUndefined | Inr v \<Rightarrow> v)"

definition non_empty_array :: "json \<Rightarrow> bool" where
  "non_empty_array v = (is_array v \<and> elements v \<noteq> [])"

definition question_lacks :: "json \<Rightarrow> bool" where
  "question_lacks q =
     (missing (field q ''question'') \<or> missing (field q ''options'')
      \<or> missing (field q ''correctAnswer''))"

definition spec_invalid_body :: "quiz_body \<Rightarrow> bool" where
  "spec_invalid_body b =
     (missing (b_title b) \<or> missing (b_questions b) \<or> missing (b_duration b)
      \<or> \<not> non_empty_array (b_questions b)
      \<or> (\<exists>q \<in> set (elements (b_questions b)). question_lacks q)
      \<or> (\<exists>q \<in> set (elements (b_questions b)). \<not> non_empty_array (field q ''options'')))"

text \<open>The values on which the read of a property does not throw.\<close>

definition non_nullish :: "json \<Rightarrow> bool" where
  "non_nullish v = (v \<noteq> JNull \<and> v \<noteq> JUndefined)"


text \<open>The snapshot of the questions with the answers at the same positions (lines 198
  to 203), and the two documents that \<^verbatim>\<open>submitQuiz\<close> hands to the store (lines 192 to
  204 and 216 to 222) for a score and a snapshot.\<close>

definition answered_questions :: "question_doc list \<Rightarrow> json list \<Rightarrow> answered list" where
  "answered_questions qs as =
     map (\<lambda>(q, a). \<lparr>a_question = question q, a_options = options q,
                      a_correctAnswer = correctAnswer q,
                      selectedOption = field a ''selectedOption''\<rparr>)
       (zip qs as)"

definition graded_attempt ::
    "env \<Rightarrow> user_doc \<Rightarrow> oid \<Rightarrow> quiz_doc \<Rightarrow> nat \<Rightarrow> answered list \<Rightarrow> completed_quiz" where
  "graded_attempt e user qzId qz sc snap =
     \<lparr>student = user_id user, quiz = qzId, cq_score = sc,
      cq_totalQuestions = length (questions qz),
      cq_percentage = js_times100 (js_div sc (length (questions qz))),
      cq_questions = snap, completedAt = now e\<rparr>"

definition graded_score :: "user_doc \<Rightarrow> oid \<Rightarrow> quiz_doc \<Rightarrow> nat \<Rightarrow> score_doc" where
  "graded_score user qzId qz sc =
     \<lparr>quizId = qzId, studentId = user_id user, score = sc,
      totalQuestions = length (questions qz),
      percentage = js_times100 (js_div sc (length (questions qz)))\<rparr>"


text \<open>An entry of the history that \<^verbatim>\<open>getCompletedQuizzes\<close> returns: the summary of an
  attempt and the quiz that its reference resolves to.\<close>

definition format_attempt :: "store \<Rightarrow> completed_quiz \<Rightarrow> score_summary \<times> quiz_doc" where
  "format_attempt st c =
     (\<lparr>ss_score = cq_score c, ss_totalQuestions = cq_totalQuestions c,
       ss_completedAt = completedAt c\<rparr>, the (findById st (quiz c)))"

text \<open>A response that is a success at the level of HTTP: a status from 200 to 299.\<close>

fun http_success :: "outcome \<Rightarrow> bool" where
  "http_success (Json n ok m p) = (200 \<le> n \<and> n < 300)"
| "http_success out = False"

section \<open>Example data\<close>

text \<open>A cast that accepts a body whose fields already have the types of the schema.\<close>

fun cast_str :: "json \<Rightarrow> string option" where
  "cast_str (JStr s) = Some s"
| "cast_str v = None"

fun cast_questions :: "nat \<Rightarrow> json list \<Rightarrow> question_doc list option" where
  "cast_questions i [] = Some []"
| "cast_questions i (q # qs) =
     (case (field q ''question'', field q ''options'', field q ''correctAnswer'') of
        (JStr t, JArr os, JStr c) \<Rightarrow>
          (case (those (map cast_str os), cast_questions (Suc i) qs) of
             (Some ss, Some rest) \<Rightarrow>
               Some (\<lparr>q_id = ''q'' @ decimal i, question = t, options = ss, correctAnswer = c\<rparr> # rest)
           | _ \<Rightarrow> None)
      | _ \<Rightarrow> None)"

fun plain_cast :: "json \<Rightarrow> json \<Rightarrow> json \<Rightarrow> json \<Rightarrow> quiz_fields option" where
  "plain_cast (JStr t) (JStr d) (JArr qs) (JNum n) =
     (case cast_questions 0 qs of
        None \<Rightarrow> None
      | Some qds \<Rightarrow> Some \<lparr>f_title = t, f_description = d, f_questions = qds, f_duration = n\<rparr>)"
| "plain_cast t d qs n = None"

definition env_ok :: env where
  "env_ok = \<lparr>now = 100, new_id = ''quiz9'', quiz_cast = plain_cast,
             cq_accepts = (\<lambda>c. True), score_accepts = (\<lambda>s. True)\<rparr>"

definition env_score_down :: env where
  "env_score_down = env_ok\<lparr>score_accepts := (\<lambda>s. False)\<rparr>"

definition env_attempts_down :: env where
  "env_attempts_down = env_ok\<lparr>cq_accepts := (\<lambda>c. False)\<rparr>"

definition alice :: user_doc where
  "alice = \<lparr>user_id = ''u1'', role = ''student'', fullName = ''Alice'', avatar = ''alice.png''\<rparr>"

definition root_user :: user_doc where
  "root_user = \<lparr>user_id = ''u0'', role = ''admin'', fullName = ''Root'', avatar = ''root.png''\<rparr>"

definition quiz_abc :: quiz_doc where
  "quiz_abc =
     \<lparr>quiz_id = ''quiz1'', title = ''Letters'', description = [],
      questions =
        [\<lparr>q_id = ''q1'', question = ''first'', options = [''A'', ''B'', ''C''], correctAnswer = ''A''\<rparr>,
         \<lparr>q_id = ''q2'', question = ''second'', options = [''A'', ''B'', ''C''], correctAnswer = ''B''\<rparr>,
         \<lparr>q_id = ''q3'', question = ''third'', options = [''A'', ''B'', ''C''], correctAnswer = ''C''\<rparr>],
      duration = 10, createdBy = ''u0'', createdAt = 5\<rparr>"

definition quiz_one :: quiz_doc where
  "quiz_one =
     \<lparr>quiz_id = ''quiz2'', title = ''Single'', description = [],
      questions = [\<lparr>q_id = ''q7'', question = ''only'', options = [''yes'', ''no''], correctAnswer = ''yes''\<rparr>],
      duration = 3, createdBy = ''u0'', createdAt = 8\<rparr>"

definition selected :: "string \<Rightarrow> json" where
  "selected s = JObj [(''selectedOption'', JStr s)]"

definition answers_abx :: json where
  "answers_abx = JArr [selected ''A'', selected ''B'', selected ''X'']"

definition store_abc :: store where
  "store_abc = \<lparr>quizzes = [quiz_abc, quiz_one], completedQuizzes = [], scoreDocs = [], users = [alice, root_user]\<rparr>"

definition attempt_abx :: completed_quiz where
  "attempt_abx =
     \<lparr>student = ''u1'', quiz = ''quiz1'', cq_score = 2, cq_totalQuestions = 3,
      cq_percentage = Fin (2345624805922133 / 35184372088832),
      cq_questions =
        [\<lparr>a_question = ''first'', a_options = [''A'', ''B'', ''C''], a_correctAnswer = ''A'', selectedOption = JStr ''A''\<rparr>,
         \<lparr>a_question = ''second'', a_options = [''A'', ''B'', ''C''], a_correctAnswer = ''B'', selectedOption = JStr ''B''\<rparr>,
         \<lparr>a_question = ''third'', a_options = [''A'', ''B'', ''C''], a_correctAnswer = ''C'', selectedOption = JStr ''X''\<rparr>],
      completedAt = 100\<rparr>"

definition score_abx :: score_doc where
  "score_abx = \<lparr>quizId = ''quiz1'', studentId = ''u1'', score = 2, totalQuestions = 3, percentage = Fin (2345624805922133 / 35184372088832)\<rparr>"

text \<open>A quiz of 25 questions, and answers of which the first 7 are correct.\<close>

definition quiz_25 :: quiz_doc where
  "quiz_25 =
     \<lparr>quiz_id = ''quiz25'', title = ''Long'', description = [],
      questions =
        replicate 25 \<lparr>q_id = ''q'', question = ''same'', options = [''A'', ''B''], correctAnswer = ''A''\<rparr>,
      duration = 30, createdBy = ''u0'', createdAt = 9\<rparr>"

definition answers_7 :: "json list" where
  "answers_7 = replicate 7 (selected ''A'') @ replicate 18 (selected ''B'')"

definition store_25 :: store where
  "store_25 = \<lparr>quizzes = [quiz_25], completedQuizzes = [], scoreDocs = [], users = [alice]\<rparr>"

definition attempt_7_of_25 :: completed_quiz where
  "attempt_7_of_25 =
     graded_attempt env_ok alice ''quiz25'' quiz_25 7
       (answered_questions (questions quiz_25) answers_7)"

definition store_taken :: store where
  "store_taken = store_abc\<lparr>completedQuizzes := [attempt_abx], scoreDocs := [score_abx]\<rparr>"

text \<open>The store after the only question of the second quiz has been deleted.\<close>

definition store_emptied :: store where
  "store_emptied = snd (deleteQuestion store_abc ''quiz2'' ''q7'')"

definition attempt_empty :: completed_quiz where
  "attempt_empty =
     \<lparr>student = ''u1'', quiz = ''quiz2'', cq_score = 0, cq_totalQuestions = 0,
      cq_percentage = NaN, cq_questions = [], completedAt = 100\<rparr>"

definition question_ok :: json where
  "question_ok =
     JObj [(''question'', JStr ''first''), (''options'', JArr [JStr ''A'', JStr ''B'']),
           (''correctAnswer'', JStr ''A'')]"

definition body_ok :: quiz_body where
  "body_ok =
     \<lparr>b_title = JStr ''Letters'', b_description = JUndefined,
      b_questions = JArr [question_ok], b_duration = JNum 10\<rparr>"

definition body_no_options :: quiz_body where
  "body_no_options =
     body_ok\<lparr>b_questions :=
       JArr [JObj [(''question'', JStr ''first''), (''options'', JArr []),
                   (''correctAnswer'', JStr ''A'')]]\<rparr>"

definition body_null :: quiz_body where
  "body_null = body_ok\<lparr>b_questions := JArr [JNull]\<rparr>"

definition body_bad_duration :: quiz_body where
  "body_bad_duration = body_ok\<lparr>b_duration := JStr ''abc''\<rparr>"

definition quiz_added :: quiz_doc where
  "quiz_added =
     \<lparr>quiz_id = ''quiz9'', title = ''Letters'', description = [],
      questions = [\<lparr>q_id = ''q0'', question = ''first'', options = [''A'', ''B''], correctAnswer = ''A''\<rparr>],
      duration = 10, createdBy = ''u0'', createdAt = 100\<rparr>"

definition attempt_yes :: completed_quiz where
  "attempt_yes =
     \<lparr>student = ''u1'', quiz = ''quiz2'', cq_score = 1, cq_totalQuestions = 1,
      cq_percentage = Fin 100,
      cq_questions =
        [\<lparr>a_question = ''only'', a_options = [''yes'', ''no''], a_correctAnswer = ''yes'',
          selectedOption = JStr ''yes''\<rparr>],
      completedAt = 120\<rparr>"

definition score_yes :: score_doc where
  "score_yes = \<lparr>quizId = ''quiz2'', studentId = ''u1'', score = 1, totalQuestions = 1, percentage = Fin 100\<rparr>"

definition score_root :: score_doc where
  "score_root = \<lparr>quizId = ''quiz1'', studentId = ''u0'', score = 3, totalQuestions = 3, percentage = Fin 100\<rparr>"

definition store_two :: store where
  "store_two =
     store_abc\<lparr>completedQuizzes := [attempt_abx, attempt_yes],
               scoreDocs := [score_abx, score_yes, score_root]\<rparr>"

text \<open>The store after the first quiz, which the student has taken, has been deleted.\<close>

definition store_dangling :: store where
  "store_dangling = snd (deleteQuiz store_taken ''quiz1'')"


section \<open>Reads of a JSON value\<close>

lemma get_prop_Inl: "get_prop v k = Inl err \<Longrightarrow> err = TypeError \<and> \<not> non_nullish v"
  by (cases v) (auto simp: non_nullish_def)

lemma get_prop_object: "non_nullish v \<Longrightarrow> get_prop v k = Inr (field v k)"
  by (cases v) (auto simp: non_nullish_def field_def)

lemma get_prop_not_object: "\<not> non_nullish v \<Longrightarrow> get_prop v k = Inl TypeError"
  by (cases v) (auto simp: non_nullish_def)

lemma get_index_Inl: "get_index v i = Inl err \<Longrightarrow> err = TypeError"
  by (cases v) (auto split: option.splits)

section \<open>The scoring loop\<close>



lemma score_loop_bounds:
  "score_loop qs answers i sc = Inr r \<Longrightarrow> sc \<le> r \<and> r \<le> sc + length qs"
proof (induction qs arbitrary: i sc)
  case Nil
  then show ?case by simp
next
  case (Cons q qs)
  then show ?case
    by (fastforce split: sum.splits if_splits)
qed

lemma score_loop_Inl: "score_loop qs answers i sc = Inl err \<Longrightarrow> err = TypeError"
  by (induction qs arbitrary: i sc)
     (auto split: sum.splits dest: get_prop_Inl get_index_Inl)

lemma snapshot_Inl: "snapshot qs answers i = Inl err \<Longrightarrow> err = TypeError"
  by (induction qs arbitrary: i)
     (auto split: sum.splits dest: get_prop_Inl get_index_Inl)


text \<open>An array that ends before the questions do: the read past its end, or an earlier
  read of a \<^verbatim>\<open>null\<close> element, throws.\<close>

lemma score_loop_short:
  "i \<le> length as \<Longrightarrow> length as < i + length qs \<Longrightarrow> score_loop qs (JArr as) i sc = Inl TypeError"
proof (induction qs arbitrary: i sc)
  case Nil
  then show ?case by simp
next
  case (Cons q qs)
  show ?case
  proof (cases "i < length as")
    case True
    then have "score_loop qs (JArr as) (Suc i) sc' = Inl TypeError" for sc'
      using Cons.IH [of "Suc i"] Cons.prems by simp
    then show ?thesis
      using True by (cases "non_nullish (as ! i)") (simp_all add: get_prop_object get_prop_not_object)
  next
    case False
    then show ?thesis by simp
  qed
qed

lemma score_loop_nullish:
  "\<not> non_nullish answers \<Longrightarrow> qs \<noteq> [] \<Longrightarrow> score_loop qs answers i sc = Inl TypeError"
  by (cases qs; cases answers) (auto simp: non_nullish_def)

section \<open>Rounding to a double\<close>

lemma round_half_even_error: "\<bar>of_int (round_half_even m) - m\<bar> \<le> 1 / 2"
proof -
  have "of_int \<lfloor>m\<rfloor> \<le> m" "m < of_int \<lfloor>m\<rfloor> + 1"
    by linarith+
  then show ?thesis
    by (auto simp: round_half_even_def Let_def abs_le_iff)
qed

lemma ilog2_lower:
  assumes "0 < r"
  shows "2 powi ilog2 r \<le> r"
proof (cases "1 \<le> r")
  case True
  let ?N = "\<lfloor>r\<rfloor>"
  from True have pos: "0 < ?N" by simp
  from bitlen_bounds [OF pos] have lo: "2 ^ nat (bitlen ?N - 1) \<le> ?N" ..
  have b1: "1 \<le> bitlen ?N"
    using pos bitlen_eq_zero_iff [of ?N] bitlen_nonneg [of ?N] by linarith
  have "(2::rat) powi (bitlen ?N - 1) = 2 ^ nat (bitlen ?N - 1)"
    using b1 by (simp add: power_int_nonneg_exp)
  also have "\<dots> = of_int (2 ^ nat (bitlen ?N - 1))" by simp
  also have "\<dots> \<le> of_int ?N" using lo by (simp only: of_int_le_iff)
  also have "\<dots> \<le> r" by simp
  finally show ?thesis using True by (simp add: ilog2_def)
next
  case False
  let ?M = "\<lceil>1 / r\<rceil>"
  let ?K = "?M - 1"
  from False assms have t: "1 < 1 / r" by simp
  then have "1 < ?M" by (simp add: less_ceiling_iff)
  then have pos: "0 < ?K" by simp
  from bitlen_bounds [OF pos] have hi: "?K < 2 ^ nat (bitlen ?K)" ..
  then have "?M \<le> 2 ^ nat (bitlen ?K)" by simp
  then have "(of_int ?M :: rat) \<le> of_int (2 ^ nat (bitlen ?K))" by (simp only: of_int_le_iff)
  then have "(of_int ?M :: rat) \<le> 2 ^ nat (bitlen ?K)"
    by (simp only: of_int_power of_int_numeral)
  with le_of_int_ceiling [of "1 / r"] have "1 / r \<le> 2 ^ nat (bitlen ?K)"
    by (rule order_trans)
  then have "1 / 2 ^ nat (bitlen ?K) \<le> r"
    using assms by (simp add: field_simps)
  moreover have "(2::rat) powi (- bitlen ?K) = 1 / 2 ^ nat (bitlen ?K)"
    using bitlen_nonneg [of ?K] by (simp add: power_int_minus_divide power_int_nonneg_exp)
  ultimately show ?thesis using False by (simp add: ilog2_def)
qed

lemma ilog2_upper:
  assumes "0 < r"
  shows "r < 2 powi (ilog2 r + 1)"
proof (cases "1 \<le> r")
  case True
  let ?N = "\<lfloor>r\<rfloor>"
  from True have pos: "0 < ?N" by simp
  from bitlen_bounds [OF pos] have hi: "?N < 2 ^ nat (bitlen ?N)" ..
  then have "?N + 1 \<le> 2 ^ nat (bitlen ?N)" by simp
  then have "(of_int (?N + 1) :: rat) \<le> of_int (2 ^ nat (bitlen ?N))" by (simp only: of_int_le_iff)
  moreover have "r < of_int (?N + 1)" by simp linarith
  ultimately have "r < 2 ^ nat (bitlen ?N)" by simp
  moreover have "(2::rat) powi (bitlen ?N) = 2 ^ nat (bitlen ?N)"
    using bitlen_nonneg [of ?N] by (simp add: power_int_nonneg_exp)
  ultimately show ?thesis using True by (simp add: ilog2_def)
next
  case False
  let ?M = "\<lceil>1 / r\<rceil>"
  let ?K = "?M - 1"
  from False assms have t: "1 < 1 / r" by simp
  then have "1 < ?M" by (simp add: less_ceiling_iff)
  then have pos: "0 < ?K" by simp
  from bitlen_bounds [OF pos] have lo: "2 ^ nat (bitlen ?K - 1) \<le> ?K" ..
  have b1: "1 \<le> bitlen ?K"
    using pos bitlen_eq_zero_iff [of ?K] bitlen_nonneg [of ?K] by linarith
  have "(of_int (2 ^ nat (bitlen ?K - 1)) :: rat) \<le> of_int ?K" using lo by (simp only: of_int_le_iff)
  moreover have "of_int ?K < 1 / r"
    using ceiling_correct [of "1 / r"] by simp
  ultimately have "2 ^ nat (bitlen ?K - 1) < 1 / r" by simp
  then have "r < 1 / 2 ^ nat (bitlen ?K - 1)"
    using assms by (simp add: field_simps)
  moreover have "(2::rat) powi (- bitlen ?K + 1) = 1 / 2 ^ nat (bitlen ?K - 1)"
  proof -
    have "- bitlen ?K + 1 = - (bitlen ?K - 1)" by simp
    then have "(2::rat) powi (- bitlen ?K + 1) = 2 powi (- (bitlen ?K - 1))" by simp
    also have "\<dots> = 1 / 2 powi (bitlen ?K - 1)" by (rule power_int_minus_divide)
    also have "\<dots> = 1 / 2 ^ nat (bitlen ?K - 1)" using b1 by (simp add: power_int_nonneg_exp)
    finally show ?thesis .
  qed
  ultimately show ?thesis using False by (simp add: ilog2_def)
qed

lemma to_double_normal:
  assumes lo: "2 powi (- 1022) \<le> r" and hi: "r < 2 powi 1023"
  shows "\<exists>v. to_double r = Fin v \<and> \<bar>v - r\<bar> \<le> r / 2 ^ 53"
proof -
  have "(0::rat) < 2 powi (- 1022)" by (simp add: power_int_minus)
  with lo have pos: "0 < r" by linarith
  let ?e = "ilog2 r"
  let ?ulp = "(2::rat) powi (?e - 52)"
  let ?v = "of_int (round_half_even (r / ?ulp)) * ?ulp"
  have e_lo: "- 1022 \<le> ?e"
  proof (rule ccontr)
    assume "\<not> - 1022 \<le> ?e"
    then have "?e + 1 \<le> - 1022" by simp
    then have "(2::rat) powi (?e + 1) \<le> 2 powi (- 1022)"
      by (rule power_int_increasing) simp
    with ilog2_upper [OF pos] lo show False by linarith
  qed
  have ulp_pos: "0 < ?ulp" by (simp add: zero_less_power_int)
  have "?v - r = (of_int (round_half_even (r / ?ulp)) - r / ?ulp) * ?ulp"
    using ulp_pos by (simp add: field_simps)
  then have "\<bar>?v - r\<bar> = \<bar>of_int (round_half_even (r / ?ulp)) - r / ?ulp\<bar> * ?ulp"
    using ulp_pos by (simp add: abs_mult)
  also have "\<dots> \<le> 1 / 2 * ?ulp"
    using round_half_even_error [of "r / ?ulp"] ulp_pos by (simp add: mult_right_mono)
  also have "1 / 2 * ?ulp = 2 powi ?e / 2 ^ 53"
  proof -
    have "?ulp = 2 powi ?e / 2 powi 52" by (simp add: power_int_diff)
    then show ?thesis by simp
  qed
  also have "\<dots> \<le> r / 2 ^ 53"
    using ilog2_lower [OF pos] by (simp add: divide_right_mono)
  finally have err: "\<bar>?v - r\<bar> \<le> r / 2 ^ 53" .
  have "r / 2 ^ 53 \<le> r" using pos by (simp add: field_simps)
  with err have "?v \<le> 2 * r" by linarith
  also have "\<dots> < 2 * 2 powi 1023" using hi by simp
  also have "\<dots> = 2 powi 1024"
    using power_int_add_1 [of "2::rat" 1023] by simp
  finally have no_over: "\<not> 2 powi 1024 \<le> ?v" by simp
  have "to_double r = Fin ?v"
    using pos e_lo no_over by (simp add: to_double_def Let_def max_def)
  with err show ?thesis by blast
qed

lemma to_double_zero: "to_double 0 = Fin 0"
  by (simp add: to_double_def)

lemma percentage_error:
  assumes s: "0 < s" and le: "s \<le> n" and n: "n < 2 ^ 32"
  shows "\<exists>p. js_times100 (js_div s n) = Fin p \<and>
           \<bar>p - 100 * of_nat s / of_nat n\<bar> \<le> (100 * of_nat s / of_nat n) / 2 ^ 51"
proof -
  define q :: rat where "q = of_nat s / of_nat n"
  from s le have npos: "0 < n" by simp
  have q_hi: "q \<le> 1" using le npos by (simp add: q_def)
  have "(1::rat) \<le> of_nat s" using s by simp
  moreover have "(of_nat n :: rat) < 2 ^ 32" using n by (metis of_nat_less_numeral_power_cancel_iff)
  ultimately have q_lo: "1 / 4294967296 < q"
    using npos by (simp add: q_def field_simps)
  have qpos: "0 < q" using s npos by (simp add: q_def)
  have "(2::rat) powi (- 1022) \<le> 1 / 4294967296"
    by (simp add: power_int_minus_divide)
  with q_lo have n1: "2 powi (- 1022) \<le> q" by linarith
  have "(1::rat) < 2 powi 1023" by simp
  with q_hi have n2: "q < 2 powi 1023" by linarith
  from to_double_normal [OF n1 n2] obtain q1
    where q1: "to_double q = Fin q1" and e1: "\<bar>q1 - q\<bar> \<le> q / 2 ^ 53" by blast
  have "q / 2 ^ 53 \<le> q / 2" using qpos by simp
  with e1 have q1_lo: "q / 2 \<le> q1" and q1_hi: "q1 \<le> q + q / 2 ^ 53"
    by linarith+
  have "(2::rat) powi (- 1022) \<le> 100 * (1 / 4294967296 / 2)"
    by (simp add: power_int_minus_divide)
  also have "\<dots> \<le> q1 * 100" using q1_lo q_lo by linarith
  finally have m1: "2 powi (- 1022) \<le> q1 * 100" .
  have "q / 2 ^ 53 \<le> q" using qpos by simp
  with q1_hi q_hi have "q1 * 100 \<le> 200" by linarith
  moreover have "(200::rat) < 2 powi 1023" by simp
  ultimately have m2: "q1 * 100 < 2 powi 1023" by linarith
  from to_double_normal [OF m1 m2] obtain p
    where p: "to_double (q1 * 100) = Fin p" and e2: "\<bar>p - q1 * 100\<bar> \<le> q1 * 100 / 2 ^ 53" by blast
  have run: "js_times100 (js_div s n) = Fin p"
    using npos q1 p by (simp add: js_div_def q_def)
  have "p - 100 * q = (p - q1 * 100) + 100 * (q1 - q)" by simp
  then have "\<bar>p - 100 * q\<bar> \<le> \<bar>p - q1 * 100\<bar> + \<bar>100 * (q1 - q)\<bar>"
    by (simp only: abs_triangle_ineq)
  moreover have "\<bar>100 * (q1 - q)\<bar> = 100 * \<bar>q1 - q\<bar>"
    by (simp only: abs_mult abs_numeral)
  ultimately have tri: "\<bar>p - 100 * q\<bar> \<le> \<bar>p - q1 * 100\<bar> + 100 * \<bar>q1 - q\<bar>"
    by simp
  have a: "100 * \<bar>q1 - q\<bar> \<le> 100 * (q / 2 ^ 53)" using e1 by simp
  have b: "q1 * 100 / 2 ^ 53 \<le> (q + q / 2 ^ 53) * 100 / 2 ^ 53"
    using q1_hi by (simp add: divide_right_mono)
  have c: "(q + q / 2 ^ 53) * 100 / 2 ^ 53 + 100 * (q / 2 ^ 53) \<le> 100 * q / 2 ^ 51"
    using qpos by (simp add: field_simps)
  from tri e2 a b c have "\<bar>p - 100 * q\<bar> \<le> 100 * q / 2 ^ 51" by linarith
  with run show ?thesis by (auto simp: q_def algebra_simps)
qed

text \<open>The two percentages of the examples, evaluated.\<close>

lemma percentage_2_of_3:
  "js_times100 (js_div (Suc (Suc 0)) (Suc (Suc (Suc 0)))) = Fin (2345624805922133 / 35184372088832)"
  by code_simp

lemma percentage_7_of_25:
  "js_times100 (js_div 7 25) = Fin (7881299347898369 / 281474976710656)"
  by code_simp

section \<open>Claims about submitQuiz\<close>

text \<open>C1, as amended.  When the store already holds a completed attempt of the student
  at the quiz, \<open>submitQuiz\<close> creates nothing: the store is returned as it was, and the
  response carries an existing attempt of that student at that quiz.  The response has
  status 400 and \<^verbatim>\<open>success: false\<close>.\<close>

theorem submitQuiz_repeat_rejected:
  assumes "\<exists>c \<in> set (completedQuizzes st). quiz c = qzId \<and> student c = user_id user"
  shows "\<exists>prev \<in> set (completedQuizzes st).
           quiz prev = qzId \<and> student prev = user_id user \<and>
           submitQuiz e st user qzId answers =
             (Json 400 False (Some ''You have already taken this quiz.'') (PResult prev), st)"
proof -
  let ?P = "\<lambda>c. quiz c = qzId \<and> student c = user_id user"
  from assms have "find ?P (completedQuizzes st) \<noteq> None"
    by (auto simp: find_None_iff)
  then obtain prev where f: "find ?P (completedQuizzes st) = Some prev" by blast
  then have "prev \<in> set (completedQuizzes st)" and "?P prev"
    by (auto simp: find_Some_iff)
  moreover have "submitQuiz e st user qzId answers =
      (Json 400 False (Some ''You have already taken this quiz.'') (PResult prev), st)"
    using f by (simp add: submitQuiz_def)
  ultimately show ?thesis by blast
qed

theorem submitQuiz_repeat_rejected_witness:
  "(\<exists>c \<in> set (completedQuizzes store_taken). quiz c = ''quiz1'' \<and> student c = user_id alice) \<and>
   submitQuiz env_ok store_taken alice ''quiz1'' answers_abx =
     (Json 400 False (Some ''You have already taken this quiz.'') (PResult attempt_abx), store_taken)"
  using submitQuiz_repeat_rejected [of store_taken "''quiz1''" alice env_ok answers_abx]
  by (simp add: env_ok_def alice_def root_user_def quiz_abc_def quiz_one_def selected_def
        answers_abx_def store_abc_def attempt_abx_def score_abx_def store_taken_def)

text \<open>C1 as stated says that the response is a success at the level of HTTP.  A first
  submission creates the attempt; the second one is answered with status 400.\<close>

theorem submitQuiz_repeat_not_success_counterexample:
  "submitQuiz env_ok store_abc alice ''quiz1'' answers_abx =
     (Json 200 True (Some ''Quiz submitted'') (PResult attempt_abx), store_taken) \<and>
   submitQuiz env_ok store_taken alice ''quiz1'' answers_abx =
     (Json 400 False (Some ''You have already taken this quiz.'') (PResult attempt_abx), store_taken) \<and>
   \<not> http_success (fst (submitQuiz env_ok store_taken alice ''quiz1'' answers_abx))"
  by (simp add: submitQuiz_def env_ok_def alice_def root_user_def quiz_abc_def quiz_one_def
        selected_def answers_abx_def store_abc_def attempt_abx_def score_abx_def
        store_taken_def percentage_2_of_3 Let_def)

text \<open>What \<open>submitQuiz\<close> does once the loop and the snapshot have succeeded: the
  attempt goes to the store first, the score second.\<close>

lemma submitQuiz_graded:
  assumes "\<not> (\<exists>c \<in> set (completedQuizzes st). quiz c = qzId \<and> student c = user_id user)"
    and "findById st qzId = Some qz"
    and "score_loop (questions qz) answers 0 0 = Inr sc"
    and "snapshot (questions qz) answers 0 = Inr snap"
  shows "submitQuiz e st user qzId answers =
     (if \<not> cq_accepts e (graded_attempt e user qzId qz sc snap) then (Threw StoreError, st)
      else if \<not> score_accepts e (graded_score user qzId qz sc)
      then (Next ''Failed to save score'' 500,
            st\<lparr>completedQuizzes := completedQuizzes st @ [graded_attempt e user qzId qz sc snap]\<rparr>)
      else (Json 200 True (Some ''Quiz submitted'') (PResult (graded_attempt e user qzId qz sc snap)),
            st\<lparr>completedQuizzes := completedQuizzes st @ [graded_attempt e user qzId qz sc snap],
               scoreDocs := scoreDocs st @ [graded_score user qzId qz sc]\<rparr>))"
proof -
  have none: "find (\<lambda>c. quiz c = qzId \<and> student c = user_id user) (completedQuizzes st) = None"
    using assms(1) by (simp add: find_None_iff)
  have q: "find (\<lambda>q. quiz_id q = qzId) (quizzes st) = Some qz"
    using assms(2) by (simp add: findById_def)
  show ?thesis
    using none q assms(3,4)
    by (simp add: submitQuiz_def Let_def graded_attempt_def graded_score_def)
qed





text \<open>C3, as amended.  Every attempt that \<open>submitQuiz\<close> adds to the store has a score
  between 0 and \<open>totalQuestions\<close>, and \<open>totalQuestions\<close> is the number of questions of
  the quiz.  The percentage is the double that \<^verbatim>\<open>(score / totalQuestions) * 100\<close> gives:
  \<^verbatim>\<open>NaN\<close> for a quiz without questions, 0 for the score 0, and otherwise a number whose
  distance from \<open>100 \<times> score / totalQuestions\<close> is at most that value divided by
  \<open>2 ^ 51\<close>.\<close>

theorem submitQuiz_attempt_score_bounds:
  assumes "submitQuiz e st user qzId answers = (out, st')"
    and "completedQuizzes st' \<noteq> completedQuizzes st"
  shows "\<exists>cq qz. findById st qzId = Some qz \<and>
           completedQuizzes st' = completedQuizzes st @ [cq] \<and>
           0 \<le> cq_score cq \<and> cq_score cq \<le> cq_totalQuestions cq \<and>
           cq_totalQuestions cq = length (questions qz) \<and>
           cq_percentage cq = js_times100 (js_div (cq_score cq) (cq_totalQuestions cq)) \<and>
           (cq_totalQuestions cq = 0 \<longrightarrow> cq_percentage cq = NaN) \<and>
           (cq_score cq = 0 \<and> 0 < cq_totalQuestions cq \<longrightarrow> cq_percentage cq = Fin 0) \<and>
           (0 < cq_score cq \<and> cq_totalQuestions cq < 2 ^ 32 \<longrightarrow>
              (\<exists>p. cq_percentage cq = Fin p \<and>
                 \<bar>p - 100 * of_nat (cq_score cq) / of_nat (cq_totalQuestions cq)\<bar>
                   \<le> (100 * of_nat (cq_score cq) / of_nat (cq_totalQuestions cq)) / 2 ^ 51))"
proof -
  let ?P = "\<lambda>c. quiz c = qzId \<and> student c = user_id user"
  from assms have none: "find ?P (completedQuizzes st) = None"
    by (auto simp: submitQuiz_def Let_def split: option.splits)
  from assms none obtain qz where q: "find (\<lambda>q. quiz_id q = qzId) (quizzes st) = Some qz"
    by (auto simp: submitQuiz_def Let_def split: option.splits)
  from assms none q obtain sc where sc: "score_loop (questions qz) answers 0 0 = Inr sc"
    by (auto simp: submitQuiz_def Let_def split: sum.splits)
  from assms none q sc obtain snap where sn: "snapshot (questions qz) answers 0 = Inr snap"
    by (auto simp: submitQuiz_def Let_def split: sum.splits)
  let ?n = "length (questions qz)"
  have le: "sc \<le> ?n"
    using score_loop_bounds [OF sc] by simp
  let ?cq = "\<lparr>student = user_id user, quiz = qzId, cq_score = sc,
               cq_totalQuestions = ?n,
               cq_percentage = js_times100 (js_div sc ?n),
               cq_questions = snap, completedAt = now e\<rparr>"
  have grown: "completedQuizzes st' = completedQuizzes st @ [?cq]"
    using assms none q sc sn by (auto simp: submitQuiz_def Let_def split: if_splits)
  have found: "findById st qzId = Some qz"
    using q by (simp add: findById_def)
  have nan: "?n = 0 \<longrightarrow> js_times100 (js_div sc ?n) = NaN"
    using le by (auto simp: js_div_def)
  have zero: "sc = 0 \<and> 0 < ?n \<longrightarrow> js_times100 (js_div sc ?n) = Fin 0"
    by (simp add: js_div_def to_double_zero)
  have near: "0 < sc \<and> ?n < 2 ^ 32 \<longrightarrow>
      (\<exists>p. js_times100 (js_div sc ?n) = Fin p \<and>
         \<bar>p - 100 * of_nat sc / of_nat ?n\<bar> \<le> (100 * of_nat sc / of_nat ?n) / 2 ^ 51)"
    using percentage_error [of sc ?n] le by blast
  show ?thesis
    using grown found le nan zero near
    by (intro exI [of _ ?cq] exI [of _ qz]) simp
qed

theorem submitQuiz_attempt_score_bounds_witness:
  "submitQuiz env_ok store_abc alice ''quiz1'' answers_abx =
     (Json 200 True (Some ''Quiz submitted'') (PResult attempt_abx), store_taken) \<and>
   completedQuizzes store_taken \<noteq> completedQuizzes store_abc \<and>
   (\<exists>cq qz. findById store_abc ''quiz1'' = Some qz \<and>
      completedQuizzes store_taken = completedQuizzes store_abc @ [cq] \<and>
      cq_score cq \<le> cq_totalQuestions cq \<and>
      cq_totalQuestions cq = length (questions qz) \<and>
      cq_percentage cq = js_times100 (js_div (cq_score cq) (cq_totalQuestions cq)))"
proof -
  have run: "submitQuiz env_ok store_abc alice ''quiz1'' answers_abx =
     (Json 200 True (Some ''Quiz submitted'') (PResult attempt_abx), store_taken)"
    by (simp add: submitQuiz_def env_ok_def alice_def root_user_def quiz_abc_def quiz_one_def
          selected_def answers_abx_def store_abc_def attempt_abx_def score_abx_def
          store_taken_def percentage_2_of_3 Let_def)
  have grown: "completedQuizzes store_taken \<noteq> completedQuizzes store_abc"
    by (simp add: store_taken_def store_abc_def)
  show ?thesis
    using run grown submitQuiz_attempt_score_bounds [OF run grown] by blast
qed

text \<open>C3 as stated has the percentage equal to \<open>100 \<times> score / totalQuestions\<close>.  With 7
  correct answers out of 25 that value is 28, a double; the code divides first and
  stores \<^verbatim>\<open>(7 / 25) * 100\<close>, the double 28.000000000000004.\<close>

theorem submitQuiz_percentage_7_of_25_counterexample:
  "submitQuiz env_ok store_25 alice ''quiz25'' (JArr answers_7) =
     (Json 200 True (Some ''Quiz submitted'') (PResult attempt_7_of_25),
      store_25\<lparr>completedQuizzes := [attempt_7_of_25],
               scoreDocs := [graded_score alice ''quiz25'' quiz_25 7]\<rparr>) \<and>
   cq_score attempt_7_of_25 = 7 \<and>
   cq_totalQuestions attempt_7_of_25 = 25 \<and>
   cq_percentage attempt_7_of_25 = Fin (7881299347898369 / 281474976710656) \<and>
   (7881299347898369 / 281474976710656 :: rat) \<noteq> 100 * 7 / 25"
proof -
  have a: "\<not> (\<exists>c \<in> set (completedQuizzes store_25). quiz c = ''quiz25'' \<and> student c = user_id alice)"
    by (simp add: store_25_def)
  have b: "findById store_25 ''quiz25'' = Some quiz_25"
    by (simp add: findById_def store_25_def quiz_25_def)
  have sc: "score_loop (questions quiz_25) (JArr answers_7) 0 0 = Inr 7"
    by code_simp
  have sn: "snapshot (questions quiz_25) (JArr answers_7) 0 =
      Inr (answered_questions (questions quiz_25) answers_7)"
    by code_simp
  have n: "length (questions quiz_25) = 25"
    by (simp add: quiz_25_def)
  have run: "submitQuiz env_ok store_25 alice ''quiz25'' (JArr answers_7) =
     (Json 200 True (Some ''Quiz submitted'') (PResult attempt_7_of_25),
      store_25\<lparr>completedQuizzes := [attempt_7_of_25],
               scoreDocs := [graded_score alice ''quiz25'' quiz_25 7]\<rparr>)"
    using submitQuiz_graded [OF a b sc sn, of env_ok]
    by (simp add: env_ok_def attempt_7_of_25_def store_25_def)
  have pct: "cq_percentage attempt_7_of_25 = Fin (7881299347898369 / 281474976710656)"
    using n by (simp add: attempt_7_of_25_def graded_attempt_def percentage_7_of_25)
  have rest: "cq_score attempt_7_of_25 = 7" "cq_totalQuestions attempt_7_of_25 = 25"
    using n by (simp_all add: attempt_7_of_25_def graded_attempt_def)
  show ?thesis
    using run pct rest by simp
qed

text \<open>C4.  For a student with no attempt at an existing quiz, when the loop and the
  snapshot succeed, the store accepts the attempt of this submission and refuses its
  score, the submission ends in \<^verbatim>\<open>next(new ErrorHandler("Failed to save score", 500))\<close>
  and the store that is left is the old one with the attempt appended: the attempt is
  not taken back, and no score is added.\<close>

theorem submitQuiz_score_failure_not_atomic:
  assumes "\<not> (\<exists>c \<in> set (completedQuizzes st). quiz c = qzId \<and> student c = user_id user)"
    and "findById st qzId = Some qz"
    and "score_loop (questions qz) answers 0 0 = Inr sc"
    and "snapshot (questions qz) answers 0 = Inr snap"
    and "cq_accepts e (graded_attempt e user qzId qz sc snap)"
    and "\<not> score_accepts e (graded_score user qzId qz sc)"
  shows "submitQuiz e st user qzId answers =
           (Next ''Failed to save score'' 500,
            st\<lparr>completedQuizzes := completedQuizzes st @ [graded_attempt e user qzId qz sc snap]\<rparr>)"
  using submitQuiz_graded [OF assms(1-4), of e] assms(5,6) by simp

theorem submitQuiz_score_failure_not_atomic_witness:
  "\<not> (\<exists>c \<in> set (completedQuizzes store_abc). quiz c = ''quiz1'' \<and> student c = user_id alice) \<and>
   findById store_abc ''quiz1'' = Some quiz_abc \<and>
   score_loop (questions quiz_abc) answers_abx 0 0 = Inr 2 \<and>
   snapshot (questions quiz_abc) answers_abx 0 = Inr (cq_questions attempt_abx) \<and>
   graded_attempt env_score_down alice ''quiz1'' quiz_abc 2 (cq_questions attempt_abx) = attempt_abx \<and>
   cq_accepts env_score_down attempt_abx \<and>
   \<not> score_accepts env_score_down (graded_score alice ''quiz1'' quiz_abc 2) \<and>
   submitQuiz env_score_down store_abc alice ''quiz1'' answers_abx =
     (Next ''Failed to save score'' 500, store_abc\<lparr>completedQuizzes := [attempt_abx]\<rparr>) \<and>
   scoreDocs (store_abc\<lparr>completedQuizzes := [attempt_abx]\<rparr>) = []"
proof -
  have a: "\<not> (\<exists>c \<in> set (completedQuizzes store_abc). quiz c = ''quiz1'' \<and> student c = user_id alice)"
    by (simp add: store_abc_def)
  have b: "findById store_abc ''quiz1'' = Some quiz_abc"
    by (simp add: findById_def store_abc_def quiz_abc_def quiz_one_def)
  have sc: "score_loop (questions quiz_abc) answers_abx 0 0 = Inr 2"
    by (simp add: quiz_abc_def answers_abx_def selected_def)
  have sn: "snapshot (questions quiz_abc) answers_abx 0 = Inr (cq_questions attempt_abx)"
    by (simp add: quiz_abc_def answers_abx_def selected_def attempt_abx_def)
  have g: "graded_attempt env_score_down alice ''quiz1'' quiz_abc 2 (cq_questions attempt_abx) =
      attempt_abx"
    using percentage_2_of_3
    by (simp add: graded_attempt_def env_score_down_def env_ok_def alice_def quiz_abc_def
          attempt_abx_def numeral_2_eq_2)
  have ok: "cq_accepts env_score_down (graded_attempt env_score_down alice ''quiz1'' quiz_abc 2
              (cq_questions attempt_abx))"
    by (simp add: env_score_down_def env_ok_def)
  have no: "\<not> score_accepts env_score_down (graded_score alice ''quiz1'' quiz_abc 2)"
    by (simp add: env_score_down_def env_ok_def)
  have e: "scoreDocs (store_abc\<lparr>completedQuizzes := [attempt_abx]\<rparr>) = []"
    by (simp add: store_abc_def)
  show ?thesis
    using a b sc sn g ok no e submitQuiz_score_failure_not_atomic [OF a b sc sn ok no]
    by (simp add: store_abc_def)
qed

text \<open>C10, as amended.  For a student with no attempt at an existing quiz, when the
  answers are an array shorter than the list of questions, or are absent or \<^verbatim>\<open>null\<close>
  while the quiz has at least one question, the scoring loop throws a \<open>TypeError\<close>:
  the store is unchanged and the handler does not end in a validation error.\<close>

theorem submitQuiz_short_answers_throw:
  assumes "\<not> (\<exists>c \<in> set (completedQuizzes st). quiz c = qzId \<and> student c = user_id user)"
    and "findById st qzId = Some qz"
    and "(\<exists>as. answers = JArr as \<and> length as < length (questions qz)) \<or>
         ((answers = JUndefined \<or> answers = JNull) \<and> questions qz \<noteq> [])"
  shows "submitQuiz e st user qzId answers = (Threw TypeError, st) \<and>
         (\<forall>m. fst (submitQuiz e st user qzId answers) \<noteq> Next m 400)"
proof -
  let ?P = "\<lambda>c. quiz c = qzId \<and> student c = user_id user"
  have none: "find ?P (completedQuizzes st) = None"
    using assms(1) by (simp add: find_None_iff)
  have q: "find (\<lambda>q. quiz_id q = qzId) (quizzes st) = Some qz"
    using assms(2) by (simp add: findById_def)
  have "score_loop (questions qz) answers 0 0 = Inl TypeError"
    using assms(3)
  proof
    assume "\<exists>as. answers = JArr as \<and> length as < length (questions qz)"
    then show ?thesis
      using score_loop_short [of 0 _ "questions qz" 0] by auto
  next
    assume "(answers = JUndefined \<or> answers = JNull) \<and> questions qz \<noteq> []"
    then show ?thesis
      using score_loop_nullish [of answers "questions qz" 0 0] by (auto simp: non_nullish_def)
  qed
  then show ?thesis
    using none q by (simp add: submitQuiz_def)
qed

theorem submitQuiz_short_answers_throw_witness:
  "submitQuiz env_ok store_abc alice ''quiz1'' (JArr [selected ''A'', selected ''B'']) =
     (Threw TypeError, store_abc) \<and>
   submitQuiz env_ok store_abc alice ''quiz1'' JUndefined = (Threw TypeError, store_abc)"
  using submitQuiz_short_answers_throw
      [of store_abc "''quiz1''" alice quiz_abc "JArr [selected ''A'', selected ''B'']" env_ok]
    submitQuiz_short_answers_throw
      [of store_abc "''quiz1''" alice quiz_abc JUndefined env_ok]
  by (simp add: env_ok_def alice_def root_user_def quiz_abc_def quiz_one_def selected_def
        store_abc_def findById_def)

text \<open>C10 as stated also covers absent answers for a quiz whose questions have all been
  deleted.  There the loop reads nothing and does not throw: the handler goes on to store
  an attempt with score 0 and percentage \<^verbatim>\<open>NaN\<close>, and what follows is up to the store.\<close>

theorem submitQuiz_missing_answers_empty_quiz_counterexample:
  "findById store_emptied ''quiz2'' = Some (quiz_one\<lparr>questions := []\<rparr>) \<and>
   completedQuizzes store_emptied = [] \<and>
   submitQuiz env_ok store_emptied alice ''quiz2'' JUndefined =
     (Json 200 True (Some ''Quiz submitted'') (PResult attempt_empty),
      store_emptied\<lparr>completedQuizzes := [attempt_empty],
                     scoreDocs := [\<lparr>quizId = ''quiz2'', studentId = ''u1'', score = 0,
                                    totalQuestions = 0, percentage = NaN\<rparr>]\<rparr>) \<and>
   submitQuiz env_attempts_down store_emptied alice ''quiz2'' JUndefined =
     (Threw StoreError, store_emptied)"
  by (simp add: submitQuiz_def deleteQuestion_def findById_def env_ok_def env_attempts_down_def
        alice_def root_user_def quiz_abc_def quiz_one_def store_abc_def store_emptied_def
        attempt_empty_def js_div_def Let_def)

section \<open>Claims about addQuiz and updateQuiz\<close>

lemma validate_question_object:
  "non_nullish q \<Longrightarrow>
   validate_question q =
     (if question_lacks q
      then Some (Next ''Each question must have a question, options, and correctAnswer!'' 400)
      else if \<not> non_empty_array (field q ''options'')
      then Some (Next ''Options must be a non-empty array!'' 400)
      else None)"
  by (simp add: validate_question_def get_prop_object question_lacks_def missing_def
        non_empty_array_def)

lemma validate_questions_None:
  "\<forall>q \<in> set qs. non_nullish q \<Longrightarrow>
   validate_questions qs = None \<longleftrightarrow>
     (\<forall>q \<in> set qs. \<not> question_lacks q \<and> non_empty_array (field q ''options''))"
  by (induction qs) (auto simp: validate_question_object)

lemma validate_questions_Some:
  "\<forall>q \<in> set qs. non_nullish q \<Longrightarrow> validate_questions qs = Some out \<Longrightarrow> \<exists>m. out = Next m 400"
  by (induction qs) (auto simp: validate_question_object split: if_splits)

lemma validate_body_None:
  "\<forall>q \<in> set (elements (b_questions b)). non_nullish q \<Longrightarrow>
   validate_body b = None \<longleftrightarrow> \<not> spec_invalid_body b"
  by (auto simp: validate_body_def spec_invalid_body_def validate_questions_None missing_def
        non_empty_array_def)

lemma validate_body_Some:
  "\<forall>q \<in> set (elements (b_questions b)). non_nullish q \<Longrightarrow> validate_body b = Some out \<Longrightarrow>
   \<exists>m. out = Next m 400"
  by (auto simp: validate_body_def split: if_splits dest: validate_questions_Some)

lemma decimal_0: "decimal 0 = ''0''"
  by code_simp

text \<open>C5, as amended.  For a body whose questions, when they are an array, hold no
  \<^verbatim>\<open>null\<close>: \<open>addQuiz\<close> and \<open>updateQuiz\<close> end in a validation error (400) exactly when the
  title, the questions or the duration is missing, or the questions are not a non-empty
  array, or some question lacks its text, its options or its correct answer, or the
  options of some question are not a non-empty array; the store is then unchanged.
  When the body passes and the schema's cast accepts it, \<open>addQuiz\<close> answers 201 and
  appends a new quiz whose creator is the requester.\<close>

theorem quiz_body_validation:
  assumes "\<forall>q \<in> set (elements (b_questions b)). non_nullish q"
  shows "((\<exists>m. fst (addQuiz e st user b) = Next m 400) \<longleftrightarrow> spec_invalid_body b) \<and>
         ((\<exists>m. fst (updateQuiz e st i b) = Next m 400) \<longleftrightarrow> spec_invalid_body b) \<and>
         (spec_invalid_body b \<longrightarrow>
            snd (addQuiz e st user b) = st \<and> snd (updateQuiz e st i b) = st) \<and>
         (\<forall>f. \<not> spec_invalid_body b \<and>
               quiz_cast e (b_title b)
                 (if truthy (b_description b) then b_description b else JStr [])
                 (b_questions b) (b_duration b) = Some f \<longrightarrow>
               (\<exists>newQuiz. addQuiz e st user b =
                   (Json 201 True (Some ''Quiz added successfully!'') (PQuiz newQuiz),
                    st\<lparr>quizzes := quizzes st @ [newQuiz]\<rparr>) \<and>
                  createdBy newQuiz = user_id user \<and> questions newQuiz = f_questions f \<and>
                  title newQuiz = f_title f \<and> duration newQuiz = f_duration f))"
proof (cases "validate_body b")
  case None
  then have ok: "\<not> spec_invalid_body b"
    using validate_body_None [OF assms] by simp
  show ?thesis
    using None ok
    by (auto simp: addQuiz_def updateQuiz_def Let_def split: option.splits)
next
  case (Some out)
  then have bad: "spec_invalid_body b"
    using validate_body_None [OF assms] by auto
  from validate_body_Some [OF assms Some] obtain m where "out = Next m 400" by blast
  then show ?thesis
    using Some bad by (auto simp: addQuiz_def updateQuiz_def)
qed

theorem quiz_body_validation_witness:
  "list_all non_nullish (elements (b_questions body_ok)) \<and>
   \<not> spec_invalid_body body_ok \<and>
   addQuiz env_ok store_abc root_user body_ok =
     (Json 201 True (Some ''Quiz added successfully!'') (PQuiz quiz_added),
      store_abc\<lparr>quizzes := quizzes store_abc @ [quiz_added]\<rparr>) \<and>
   createdBy quiz_added = user_id root_user \<and>
   list_all non_nullish (elements (b_questions body_no_options)) \<and>
   spec_invalid_body body_no_options \<and>
   (\<exists>m. fst (addQuiz env_ok store_abc root_user body_no_options) = Next m 400) \<and>
   (\<exists>m. fst (updateQuiz env_ok store_abc ''quiz1'' body_no_options) = Next m 400) \<and>
   snd (addQuiz env_ok store_abc root_user body_no_options) = store_abc"
proof -
  have a: "\<forall>q \<in> set (elements (b_questions body_ok)). non_nullish q"
    by (simp add: env_ok_def alice_def root_user_def quiz_abc_def quiz_one_def store_abc_def
          question_ok_def body_ok_def body_no_options_def quiz_added_def non_nullish_def)
  have b: "\<forall>q \<in> set (elements (b_questions body_no_options)). non_nullish q"
    by (simp add: env_ok_def alice_def root_user_def quiz_abc_def quiz_one_def store_abc_def
          question_ok_def body_ok_def body_no_options_def quiz_added_def non_nullish_def)
  have ok: "\<not> spec_invalid_body body_ok"
    by (simp add: spec_invalid_body_def question_lacks_def missing_def field_def
          non_empty_array_def env_ok_def alice_def root_user_def quiz_abc_def quiz_one_def
          store_abc_def question_ok_def body_ok_def body_no_options_def quiz_added_def)
  have bad: "spec_invalid_body body_no_options"
    by (simp add: spec_invalid_body_def question_lacks_def missing_def field_def
          non_empty_array_def env_ok_def alice_def root_user_def quiz_abc_def quiz_one_def
          store_abc_def question_ok_def body_ok_def body_no_options_def quiz_added_def)
  have run: "addQuiz env_ok store_abc root_user body_ok =
     (Json 201 True (Some ''Quiz added successfully!'') (PQuiz quiz_added),
      store_abc\<lparr>quizzes := quizzes store_abc @ [quiz_added]\<rparr>)"
    by (simp add: addQuiz_def validate_body_def validate_question_def field_def
          decimal_0 Let_def env_ok_def alice_def root_user_def quiz_abc_def quiz_one_def
          store_abc_def question_ok_def body_ok_def body_no_options_def quiz_added_def)
  have own: "createdBy quiz_added = user_id root_user"
    by (simp add: env_ok_def alice_def root_user_def quiz_abc_def quiz_one_def store_abc_def
          question_ok_def body_ok_def body_no_options_def quiz_added_def)
  show ?thesis
    using a b ok bad run own
      quiz_body_validation [OF b, of env_ok store_abc root_user "''quiz1''"]
    by (simp add: list_all_iff)
qed

text \<open>C5 as stated has no case for a question that is \<^verbatim>\<open>null\<close>, nor for a body that
  passes the checks of the handler and that the schema refuses.  A \<^verbatim>\<open>null\<close> question
  lacks its text, yet the handlers do not end in a validation error: the read
  \<^verbatim>\<open>question.question\<close> throws a \<open>TypeError\<close>.  A duration \<^verbatim>\<open>"abc"\<close> is truthy and
  passes the checks, yet it is no number for the schema: \<^verbatim>\<open>Quiz.create\<close> rejects, and no
  quiz is stored.\<close>

theorem addQuiz_unvalidated_inputs_counterexample:
  "spec_invalid_body body_null \<and>
   addQuiz env_ok store_abc root_user body_null = (Threw TypeError, store_abc) \<and>
   updateQuiz env_ok store_abc ''quiz1'' body_null = (Threw TypeError, store_abc) \<and>
   \<not> spec_invalid_body body_bad_duration \<and>
   plain_cast (b_title body_bad_duration) (JStr []) (b_questions body_bad_duration)
     (b_duration body_bad_duration) = None \<and>
   addQuiz env_ok store_abc root_user body_bad_duration = (Threw StoreError, store_abc)"
  by (simp add: addQuiz_def updateQuiz_def validate_body_def validate_question_def
        spec_invalid_body_def question_lacks_def missing_def field_def non_empty_array_def
        env_ok_def alice_def root_user_def quiz_abc_def quiz_one_def store_abc_def
        question_ok_def body_ok_def body_null_def body_bad_duration_def)

section \<open>Claims about getAllQuizzes\<close>

lemma filter_Boolean_eq: "filter_Boolean xs = map the (filter (\<lambda>x. x \<noteq> None) xs)"
  by (induction xs rule: filter_Boolean.induct) simp_all

lemma latest_quiz_None: "latest_quiz st = None \<longleftrightarrow> quizzes st = []"
proof -
  have "sort_key (\<lambda>q. - int (createdAt q)) (quizzes st) = [] \<longleftrightarrow> quizzes st = []"
    by (metis length_0_conv length_sort)
  then show ?thesis
    by (auto simp: latest_quiz_def split: list.splits)
qed

lemma latest_quiz_Some:
  assumes "latest_quiz st = Some q"
  shows "q \<in> set (quizzes st) \<and> (\<forall>q' \<in> set (quizzes st). createdAt q' \<le> createdAt q)"
proof -
  let ?k = "\<lambda>q. - int (createdAt q)"
  from assms obtain rest where s: "sort_key ?k (quizzes st) = q # rest"
    by (auto simp: latest_quiz_def split: list.splits)
  have "set (q # rest) = set (quizzes st)"
    using s by (metis set_sort)
  moreover have "sorted (map ?k (q # rest))"
    using s by (metis sorted_sort_key)
  ultimately show ?thesis
    by auto
qed

text \<open>C6.  An admin receives every quiz.  Any other requester receives the quiz created
  last (none when the collection is empty), followed by the quiz referenced by each of
  the requester's completed attempts, in their order, without the references that no
  longer resolve and without removing a quiz that occurs twice.  A requester who is not
  an admin and has two completed attempts whose references resolve receives three
  items.\<close>

theorem getAllQuizzes_listing:
  "(role user = ''admin'' \<longrightarrow>
      getAllQuizzes st user = Json 200 True None (PQuizzes (quizzes st))) \<and>
   (role user \<noteq> ''admin'' \<longrightarrow>
      (\<exists>latest.
         getAllQuizzes st user =
           Json 200 True None
             (PQuizzes (latest @
                map (\<lambda>c. the (findById st (quiz c)))
                  (filter (\<lambda>c. findById st (quiz c) \<noteq> None)
                     (filter (\<lambda>c. student c = user_id user) (completedQuizzes st))))) \<and>
         (quizzes st = [] \<longrightarrow> latest = []) \<and>
         (quizzes st \<noteq> [] \<longrightarrow>
            (\<exists>q \<in> set (quizzes st). latest = [q] \<and>
               (\<forall>q' \<in> set (quizzes st). createdAt q' \<le> createdAt q))))) \<and>
   (role user \<noteq> ''admin'' \<and>
    length (filter (\<lambda>c. student c = user_id user) (completedQuizzes st)) = 2 \<and>
    (\<forall>c \<in> set (completedQuizzes st). student c = user_id user \<longrightarrow> findById st (quiz c) \<noteq> None) \<longrightarrow>
      (\<exists>qs. getAllQuizzes st user = Json 200 True None (PQuizzes qs) \<and> length qs = 3))"
proof (intro conjI impI)
  assume "role user = ''admin''"
  then show "getAllQuizzes st user = Json 200 True None (PQuizzes (quizzes st))"
    by (simp add: getAllQuizzes_def)
next
  assume na: "role user \<noteq> ''admin''"
  let ?mine = "filter (\<lambda>c. student c = user_id user) (completedQuizzes st)"
  let ?refs = "map (\<lambda>c. the (findById st (quiz c))) (filter (\<lambda>c. findById st (quiz c) \<noteq> None) ?mine)"
  let ?latest = "case latest_quiz st of None \<Rightarrow> [] | Some q \<Rightarrow> [q]"
  have run: "getAllQuizzes st user = Json 200 True None (PQuizzes (?latest @ ?refs))"
    using na
    by (simp add: getAllQuizzes_def Let_def filter_Boolean_eq filter_map comp_def
          split: option.splits)
  have e: "quizzes st = [] \<longrightarrow> ?latest = []"
    using latest_quiz_None [of st] by (auto split: option.splits)
  have n: "quizzes st \<noteq> [] \<longrightarrow>
      (\<exists>q \<in> set (quizzes st). ?latest = [q] \<and> (\<forall>q' \<in> set (quizzes st). createdAt q' \<le> createdAt q))"
    using latest_quiz_None [of st] latest_quiz_Some [of st]
    by (cases "latest_quiz st") auto
  show "\<exists>latest.
         getAllQuizzes st user =
           Json 200 True None
             (PQuizzes (latest @
                map (\<lambda>c. the (findById st (quiz c)))
                  (filter (\<lambda>c. findById st (quiz c) \<noteq> None)
                     (filter (\<lambda>c. student c = user_id user) (completedQuizzes st))))) \<and>
         (quizzes st = [] \<longrightarrow> latest = []) \<and>
         (quizzes st \<noteq> [] \<longrightarrow>
            (\<exists>q \<in> set (quizzes st). latest = [q] \<and>
               (\<forall>q' \<in> set (quizzes st). createdAt q' \<le> createdAt q)))"
    using run e n by blast
next
  assume a: "role user \<noteq> ''admin'' \<and>
    length (filter (\<lambda>c. student c = user_id user) (completedQuizzes st)) = 2 \<and>
    (\<forall>c \<in> set (completedQuizzes st). student c = user_id user \<longrightarrow> findById st (quiz c) \<noteq> None)"
  let ?mine = "filter (\<lambda>c. student c = user_id user) (completedQuizzes st)"
  have all: "filter (\<lambda>c. findById st (quiz c) \<noteq> None) ?mine = ?mine"
  proof (rule filter_True)
    show "\<forall>x \<in> set ?mine. findById st (quiz x) \<noteq> None"
      using a by auto
  qed
  from a have "?mine \<noteq> []" by auto
  then obtain c where c: "c \<in> set (completedQuizzes st)" "student c = user_id user"
    by (metis (mono_tags, lifting) filter_False)
  with a obtain qz where "findById st (quiz c) = Some qz" by auto
  then have "quizzes st \<noteq> []"
    by (auto simp: findById_def)
  then obtain q where l: "latest_quiz st = Some q"
    using latest_quiz_None [of st] by auto
  show "\<exists>qs. getAllQuizzes st user = Json 200 True None (PQuizzes qs) \<and> length qs = 3"
    using a l all
    by (simp add: getAllQuizzes_def Let_def filter_Boolean_eq filter_map comp_def)
qed

theorem getAllQuizzes_listing_witness:
  "getAllQuizzes store_two root_user = Json 200 True None (PQuizzes [quiz_abc, quiz_one]) \<and>
   getAllQuizzes store_two alice = Json 200 True None (PQuizzes [quiz_one, quiz_abc, quiz_one]) \<and>
   (\<exists>qs. getAllQuizzes store_two alice = Json 200 True None (PQuizzes qs) \<and> length qs = 3)"
proof -
  have run: "getAllQuizzes store_two alice = Json 200 True None (PQuizzes [quiz_one, quiz_abc, quiz_one])"
    by (simp add: getAllQuizzes_def latest_quiz_def findById_def alice_def root_user_def
          quiz_abc_def quiz_one_def store_abc_def attempt_abx_def score_abx_def attempt_yes_def
          score_yes_def score_root_def store_two_def)
  show ?thesis
    using run getAllQuizzes_listing [of root_user store_two] getAllQuizzes_listing [of alice store_two]
    by (simp add: alice_def root_user_def quiz_abc_def quiz_one_def store_abc_def
          attempt_abx_def score_abx_def attempt_yes_def score_yes_def score_root_def
          store_two_def findById_def)
qed

section \<open>Claims about getQuizLeaderboard\<close>

lemma sorted_desc_nat:
  "sorted (map (\<lambda>x. - int (f x)) xs) = sorted_wrt (\<lambda>a b. f b \<le> f a) xs"
  by (simp add: sorted_map)

text \<open>C8.  For a quiz identifier that is present, the leaderboard returned is sorted by
  score in descending order, every entry is a score of the store whose quiz is the one
  requested, and the entries are all the scores of that quiz.  Without an identifier the
  answer is 400 and no list is returned.\<close>

theorem getQuizLeaderboard_sorted:
  "(qzId = [] \<longrightarrow>
      getQuizLeaderboard st qzId = Json 400 False (Some ''Quiz ID is required'') NoPayload) \<and>
   (qzId \<noteq> [] \<longrightarrow>
      (\<exists>lb. getQuizLeaderboard st qzId = Json 200 True None (PLeaderboard lb) \<and>
         sorted_wrt (\<lambda>a b. score (le_score b) \<le> score (le_score a)) lb \<and>
         (\<forall>en \<in> set lb. quizId (le_score en) = qzId \<and> le_score en \<in> set (scoreDocs st)) \<and>
         mset (map le_score lb) = filter_mset (\<lambda>s. quizId s = qzId) (mset (scoreDocs st))))"
proof (intro conjI impI)
  assume "qzId = []"
  then show "getQuizLeaderboard st qzId = Json 400 False (Some ''Quiz ID is required'') NoPayload"
    by (simp add: getQuizLeaderboard_def)
next
  assume ne: "qzId \<noteq> []"
  let ?found = "sort_key (\<lambda>s. - int (score s)) (filter (\<lambda>s. quizId s = qzId) (scoreDocs st))"
  let ?entry = "\<lambda>s. \<lparr>le_score = s,
                      le_student = map_option (\<lambda>u. (fullName u, avatar u))
                                     (find (\<lambda>u. user_id u = studentId s) (users st))\<rparr>"
  let ?lb = "map ?entry ?found"
  have run: "getQuizLeaderboard st qzId = Json 200 True None (PLeaderboard ?lb)"
    using ne by (simp add: getQuizLeaderboard_def)
  have proj: "map le_score ?lb = ?found"
    by (simp add: comp_def)
  have "sorted (map (\<lambda>s. - int (score s)) ?found)"
    by (rule sorted_sort_key)
  then have "sorted_wrt (\<lambda>a b. score b \<le> score a) ?found"
    by (simp only: sorted_desc_nat)
  then have "sorted_wrt (\<lambda>a b. score b \<le> score a) (map le_score ?lb)"
    by (simp only: proj)
  then have srt: "sorted_wrt (\<lambda>a b. score (le_score b) \<le> score (le_score a)) ?lb"
    by (simp only: sorted_wrt_map)
  have mem: "\<forall>en \<in> set ?lb. quizId (le_score en) = qzId \<and> le_score en \<in> set (scoreDocs st)"
    by auto
  have ms: "mset (map le_score ?lb) = filter_mset (\<lambda>s. quizId s = qzId) (mset (scoreDocs st))"
    by (simp only: proj mset_sort mset_filter)
  show "\<exists>lb. getQuizLeaderboard st qzId = Json 200 True None (PLeaderboard lb) \<and>
         sorted_wrt (\<lambda>a b. score (le_score b) \<le> score (le_score a)) lb \<and>
         (\<forall>en \<in> set lb. quizId (le_score en) = qzId \<and> le_score en \<in> set (scoreDocs st)) \<and>
         mset (map le_score lb) = filter_mset (\<lambda>s. quizId s = qzId) (mset (scoreDocs st))"
    using run srt mem ms by blast
qed

theorem getQuizLeaderboard_sorted_witness:
  "getQuizLeaderboard store_two ''quiz1'' =
     Json 200 True None
       (PLeaderboard [\<lparr>le_score = score_root, le_student = Some (''Root'', ''root.png'')\<rparr>,
                      \<lparr>le_score = score_abx, le_student = Some (''Alice'', ''alice.png'')\<rparr>]) \<and>
   (\<exists>lb. getQuizLeaderboard store_two ''quiz1'' = Json 200 True None (PLeaderboard lb) \<and>
      sorted_wrt (\<lambda>a b. score (le_score b) \<le> score (le_score a)) lb \<and>
      (\<forall>en \<in> set lb. quizId (le_score en) = ''quiz1''))"
proof -
  have run: "getQuizLeaderboard store_two ''quiz1'' =
     Json 200 True None
       (PLeaderboard [\<lparr>le_score = score_root, le_student = Some (''Root'', ''root.png'')\<rparr>,
                      \<lparr>le_score = score_abx, le_student = Some (''Alice'', ''alice.png'')\<rparr>])"
    by (simp add: getQuizLeaderboard_def alice_def root_user_def quiz_abc_def quiz_one_def
          store_abc_def attempt_abx_def score_abx_def attempt_yes_def score_yes_def
          score_root_def store_two_def)
  show ?thesis
    using run getQuizLeaderboard_sorted [of "''quiz1''" store_two] by auto
qed

section \<open>Claims about getCompletedQuizzes\<close>

lemma sort_key_eq_Nil: "sort_key f xs = [] \<longleftrightarrow> xs = []"
  by (metis length_0_conv length_sort)

text \<open>C7, as amended.  \<open>getCompletedQuizzes\<close> ends in not-found (404) exactly when the
  student has no completed attempt at all.  Otherwise it answers 200 with the
  student's attempts whose quiz still exists, each with its quiz resolved, newest
  first; this list is empty when every referenced quiz has been deleted.\<close>

theorem getCompletedQuizzes_history:
  "(filter (\<lambda>c. student c = stId) (completedQuizzes st) = [] \<longrightarrow>
      getCompletedQuizzes st stId = Next ''No completed quizzes found'' 404) \<and>
   (filter (\<lambda>c. student c = stId) (completedQuizzes st) \<noteq> [] \<longrightarrow>
      (\<exists>fs. getCompletedQuizzes st stId = Json 200 True None (PCompleted fs) \<and>
         sorted_wrt (\<lambda>a b. ss_completedAt (fst b) \<le> ss_completedAt (fst a)) fs \<and>
         mset fs =
           image_mset (format_attempt st)
             (filter_mset (\<lambda>c. student c = stId \<and> findById st (quiz c) \<noteq> None)
                (mset (completedQuizzes st)))))"
proof (intro conjI impI)
  assume "filter (\<lambda>c. student c = stId) (completedQuizzes st) = []"
  then show "getCompletedQuizzes st stId = Next ''No completed quizzes found'' 404"
    by (simp add: getCompletedQuizzes_def)
next
  assume ne: "filter (\<lambda>c. student c = stId) (completedQuizzes st) \<noteq> []"
  let ?k = "\<lambda>(c, q). - int (completedAt c)"
  let ?pairs = "map (\<lambda>c. (c, findById st (quiz c))) (filter (\<lambda>c. student c = stId) (completedQuizzes st))"
  let ?kept = "filter (\<lambda>(c, q). q \<noteq> None) (sort_key ?k ?pairs)"
  let ?fmt = "\<lambda>(c, q). (\<lparr>ss_score = cq_score c, ss_totalQuestions = cq_totalQuestions c,
                            ss_completedAt = completedAt c\<rparr>, the q)"
  let ?fs = "map ?fmt ?kept"
  have run: "getCompletedQuizzes st stId = Json 200 True None (PCompleted ?fs)"
    using ne by (simp add: getCompletedQuizzes_def Let_def sort_key_eq_Nil)
  have "sorted (map ?k (sort_key ?k ?pairs))"
    by (rule sorted_sort_key)
  then have "sorted (map ?k ?kept)"
    by (rule sorted_filter)
  then have "sorted_wrt (\<lambda>a b. ?k a \<le> ?k b) ?kept"
    by (simp only: sorted_map)
  then have "sorted_wrt (\<lambda>a b. ss_completedAt (fst (?fmt b)) \<le> ss_completedAt (fst (?fmt a))) ?kept"
    by (rule sorted_wrt_mono_rel [rotated]) (auto split: prod.splits)
  then have srt: "sorted_wrt (\<lambda>a b. ss_completedAt (fst b) \<le> ss_completedAt (fst a)) ?fs"
    by (simp only: sorted_wrt_map)
  have lists: "map ?fmt (filter (\<lambda>(c, q). q \<noteq> None) ?pairs) =
      map (format_attempt st)
        (filter (\<lambda>c. student c = stId \<and> findById st (quiz c) \<noteq> None) (completedQuizzes st))"
    by (simp add: filter_map comp_def format_attempt_def conj_commute)
  have "mset ?fs = mset (map ?fmt (filter (\<lambda>(c, q). q \<noteq> None) ?pairs))"
    by (simp only: mset_map mset_filter mset_sort)
  also have "\<dots> = mset (map (format_attempt st)
        (filter (\<lambda>c. student c = stId \<and> findById st (quiz c) \<noteq> None) (completedQuizzes st)))"
    by (simp only: lists)
  also have "\<dots> = image_mset (format_attempt st)
             (filter_mset (\<lambda>c. student c = stId \<and> findById st (quiz c) \<noteq> None)
                (mset (completedQuizzes st)))"
    by (simp only: mset_map mset_filter)
  finally have ms: "mset ?fs = image_mset (format_attempt st)
             (filter_mset (\<lambda>c. student c = stId \<and> findById st (quiz c) \<noteq> None)
                (mset (completedQuizzes st)))" .
  show "\<exists>fs. getCompletedQuizzes st stId = Json 200 True None (PCompleted fs) \<and>
         sorted_wrt (\<lambda>a b. ss_completedAt (fst b) \<le> ss_completedAt (fst a)) fs \<and>
         mset fs =
           image_mset (format_attempt st)
             (filter_mset (\<lambda>c. student c = stId \<and> findById st (quiz c) \<noteq> None)
                (mset (completedQuizzes st)))"
    using run srt ms by blast
qed

theorem getCompletedQuizzes_history_witness:
  "getCompletedQuizzes store_two ''u1'' =
     Json 200 True None
       (PCompleted [(\<lparr>ss_score = 1, ss_totalQuestions = 1, ss_completedAt = 120\<rparr>, quiz_one),
                    (\<lparr>ss_score = 2, ss_totalQuestions = 3, ss_completedAt = 100\<rparr>, quiz_abc)]) \<and>
   filter (\<lambda>c. student c = ''u0'') (completedQuizzes store_two) = [] \<and>
   getCompletedQuizzes store_two ''u0'' = Next ''No completed quizzes found'' 404"
proof -
  have run: "getCompletedQuizzes store_two ''u1'' =
     Json 200 True None
       (PCompleted [(\<lparr>ss_score = 1, ss_totalQuestions = 1, ss_completedAt = 120\<rparr>, quiz_one),
                    (\<lparr>ss_score = 2, ss_totalQuestions = 3, ss_completedAt = 100\<rparr>, quiz_abc)])"
    by (simp add: getCompletedQuizzes_def findById_def alice_def root_user_def quiz_abc_def
          quiz_one_def store_abc_def attempt_abx_def score_abx_def attempt_yes_def
          score_yes_def score_root_def store_two_def)
  have none: "filter (\<lambda>c. student c = ''u0'') (completedQuizzes store_two) = []"
    by (simp add: alice_def root_user_def quiz_abc_def quiz_one_def store_abc_def
          attempt_abx_def score_abx_def attempt_yes_def score_yes_def score_root_def
          store_two_def)
  show ?thesis
    using run none getCompletedQuizzes_history [of "''u0''" store_two] by simp
qed

text \<open>C7 as stated has the handler fail whenever the list it returns is empty.  The
  test for emptiness (line 304) comes before the attempts without a quiz are dropped
  (line 310): a student whose only attempt is at a deleted quiz gets 200 and an empty
  list.\<close>

theorem getCompletedQuizzes_all_dropped_counterexample:
  "filter (\<lambda>c. student c = ''u1'') (completedQuizzes store_dangling) = [attempt_abx] \<and>
   findById store_dangling (quiz attempt_abx) = None \<and>
   getCompletedQuizzes store_dangling ''u1'' = Json 200 True None (PCompleted [])"
  by (simp add: getCompletedQuizzes_def deleteQuiz_def findById_def alice_def root_user_def
        quiz_abc_def quiz_one_def store_abc_def attempt_abx_def score_abx_def store_taken_def
        store_dangling_def)

section \<open>Claims about deleteQuestion\<close>

lemma replace_first_same: "find P xs = Some x \<Longrightarrow> replace_first P x xs = xs"
  by (induction xs) (auto split: if_splits)

lemma find_replace_first_hit:
  "find P xs = Some x \<Longrightarrow> P y \<Longrightarrow> find P (replace_first P y xs) = Some y"
  by (induction xs) (auto split: if_splits)

lemma find_replace_first_other:
  "\<not> Q y \<Longrightarrow> (\<forall>x. P x \<longrightarrow> \<not> Q x) \<Longrightarrow> find Q (replace_first P y xs) = find Q xs"
  by (induction xs) auto

lemma filter_key_remove1:
  "distinct (map f xs) \<Longrightarrow> x \<in> set xs \<Longrightarrow> filter (\<lambda>y. f y \<noteq> f x) xs = remove1 x xs"
proof (induction xs)
  case Nil
  then show ?case by simp
next
  case (Cons a xs)
  show ?case
  proof (cases "a = x")
    case True
    with Cons.prems have "f x \<notin> f ` set xs" by simp
    then have "\<forall>y \<in> set xs. f y \<noteq> f x" by (metis imageI)
    then have "filter (\<lambda>y. f y \<noteq> f x) xs = xs" by (simp add: filter_True)
    with True show ?thesis by simp
  next
    case False
    with Cons.prems have "x \<in> set xs" "f a \<noteq> f x" "distinct (map f xs)" by auto
    with Cons.IH False show ?thesis by simp
  qed
qed

text \<open>C9.  For an existing quiz \<open>deleteQuestion\<close> answers 200 and saves the quiz with
  the questions whose identifier differs from the one given, in their order; every
  other quiz is as before.  When no question has that identifier the store is
  unchanged.  When a question has it, and the identifiers of the questions are distinct,
  the saved list is the old one without exactly that question.\<close>

theorem deleteQuestion_effect:
  assumes "findById st qzId = Some qz"
  shows "\<exists>st'. deleteQuestion st qzId questionId =
                  (Json 200 True (Some ''Question deleted successfully!'') NoPayload, st') \<and>
               findById st' qzId =
                  Some (qz\<lparr>questions := filter (\<lambda>q. q_id q \<noteq> questionId) (questions qz)\<rparr>) \<and>
               (\<forall>other. other \<noteq> qzId \<longrightarrow> findById st' other = findById st other) \<and>
               ((\<forall>q \<in> set (questions qz). q_id q \<noteq> questionId) \<longrightarrow> st' = st) \<and>
               (\<forall>q \<in> set (questions qz). q_id q = questionId \<and> distinct (map q_id (questions qz)) \<longrightarrow>
                  findById st' qzId = Some (qz\<lparr>questions := remove1 q (questions qz)\<rparr>))"
proof -
  let ?saved = "qz\<lparr>questions := filter (\<lambda>q. q_id q \<noteq> questionId) (questions qz)\<rparr>"
  let ?st' = "st\<lparr>quizzes := replace_first (\<lambda>q. quiz_id q = qzId) ?saved (quizzes st)\<rparr>"
  have f: "find (\<lambda>q. quiz_id q = qzId) (quizzes st) = Some qz"
    using assms by (simp add: findById_def)
  then have id: "quiz_id qz = qzId"
    by (auto simp: find_Some_iff)
  have run: "deleteQuestion st qzId questionId =
      (Json 200 True (Some ''Question deleted successfully!'') NoPayload, ?st')"
    using assms by (simp add: deleteQuestion_def Let_def)
  have hit: "findById ?st' qzId = Some ?saved"
    using find_replace_first_hit [OF f, of ?saved] id by (simp add: findById_def)
  have other: "\<forall>other. other \<noteq> qzId \<longrightarrow> findById ?st' other = findById st other"
    using id by (simp add: findById_def find_replace_first_other)
  have same: "(\<forall>q \<in> set (questions qz). q_id q \<noteq> questionId) \<longrightarrow> ?st' = st"
  proof
    assume "\<forall>q \<in> set (questions qz). q_id q \<noteq> questionId"
    then have "filter (\<lambda>q. q_id q \<noteq> questionId) (questions qz) = questions qz"
      by (simp add: filter_True)
    then have "?saved = qz" by simp
    then show "?st' = st"
      using replace_first_same [OF f] by simp
  qed
  have one: "\<forall>q \<in> set (questions qz). q_id q = questionId \<and> distinct (map q_id (questions qz)) \<longrightarrow>
                  findById ?st' qzId = Some (qz\<lparr>questions := remove1 q (questions qz)\<rparr>)"
    using hit filter_key_remove1 [of q_id "questions qz"] by auto
  show ?thesis
    using run hit other same one by blast
qed

theorem deleteQuestion_effect_witness:
  "deleteQuestion store_abc ''quiz1'' ''absent'' =
     (Json 200 True (Some ''Question deleted successfully!'') NoPayload, store_abc) \<and>
   fst (deleteQuestion store_abc ''quiz1'' ''q2'') =
     Json 200 True (Some ''Question deleted successfully!'') NoPayload \<and>
   map q_id (questions (the (findById (snd (deleteQuestion store_abc ''quiz1'' ''q2'')) ''quiz1''))) =
     [''q1'', ''q3''] \<and>
   findById (snd (deleteQuestion store_abc ''quiz1'' ''q2'')) ''quiz2'' = Some quiz_one"
  using deleteQuestion_effect [of store_abc "''quiz1''" quiz_abc "''absent''"]
    deleteQuestion_effect [of store_abc "''quiz1''" quiz_abc "''q2''"]
  by (auto simp add: findById_def alice_def root_user_def quiz_abc_def quiz_one_def store_abc_def)

end
